theory Spec2Isabelle
  imports Main
begin

section \<open>The Stream Deck host and the Sonos client, as seen by the plugin\<close>

text \<open>
  The plugin is event driven: every handler of the action class runs to its next
  \<^verbatim>\<open>await\<close> without interruption. A handler is therefore modelled as one function
  per synchronous stretch: the part up to the first \<^verbatim>\<open>await\<close>, and one continuation
  for each \<^verbatim>\<open>await\<close>, which receives the outcome of the network call. JavaScript
  numbers are restricted to integers (\<open>int\<close>); the calls made on the host and on
  the device are recorded, in order, in a trace.
\<close>

text \<open>\<^verbatim>\<open>SonosVolumeDialSettings\<close>; each field may be \<^verbatim>\<open>undefined\<close> at run time
  (the handlers give defaults when destructuring).\<close>

record settings =
  svalue :: "int option"
  speakerIp :: "string option"
  volumeStep :: "int option"

text \<open>\<^verbatim>\<open>ev.action\<close>: the host's handle of the control, with the answer of \<^verbatim>\<open>isDial()\<close>.\<close>

record action =
  aid :: nat
  isDial :: bool

text \<open>The opacity \<^verbatim>\<open>isMuted ? 0.5 : 1.0\<close> of the feedback.\<close>

datatype opacity = Half | Full

definition opacity_of :: "bool \<Rightarrow> opacity" where
  "opacity_of m = (if m then Half else Full)"

datatype level = Debug | Info | Warn | Error

text \<open>
  Outbound calls. \<open>SetFeedback a v op\<close> is \<^verbatim>\<open>setFeedback\<close> with \<open>v\<close> and \<open>op\<close> as
  value and opacity of both the value and the indicator; \<open>Log l scope msg\<close> is a call of
  the scoped logger; \<open>NewSonos ip\<close> is \<^verbatim>\<open>new Sonos(ip)\<close>; the four device calls carry
  the handle (the host it was constructed for) they are made on.
\<close>

datatype effect =
    SetFeedback action int opacity
  | SetSettings action settings
  | ShowAlert action
  | Log level string string
  | NewSonos string
  | GetVolume string
  | GetMuted string
  | SetMuted string bool
  | SetVolume string int

text \<open>The two closures handed to \<^verbatim>\<open>setTimeout\<close>, with the variables they capture.\<close>

datatype callback =
    PollWake
  | VolumeChange action string int

record timer =
  tid :: nat
  delay :: nat
  cb :: callback

text \<open>Outcome of an awaited device call: the promise rejects, or resolves (a read with
  volume and mute state; a write ignores the two values).\<close>

datatype reply = Rejected | Resolved int bool

text \<open>A handler suspended at an \<^verbatim>\<open>await\<close>, with its captured variables.\<close>

datatype pending =
    AwaitPollRead
  | AwaitAppear action settings
  | AwaitUnmute action string int
  | AwaitSetVolume action string int
  | AwaitDialUp action
  | AwaitTouchTap action
  | AwaitSettingsRead action settings

text \<open>The fields of \<^verbatim>\<open>SonosVolumeDial\<close>, followed by the environment: the timers that
  are set and have not fired, the next timer handle, the suspended handlers and the trace.\<close>

record dial =
  sonos :: "string option"
  lastKnownVolume :: int
  isMuted :: bool
  pollInterval :: "bool option"
  pollTimeoutId :: "nat option"
  currentAction :: "action option"
  currentSettings :: "settings option"
  volumeChangeTimeout :: "nat option"
  isRotating :: bool
  timers :: "timer list"
  nextTimer :: nat
  awaiting :: "pending list"
  trace :: "effect list"

definition POLLING_INTERVAL_MS :: nat where
  "POLLING_INTERVAL_MS = 3000"

definition VOLUME_CHANGE_DEBOUNCE_MS :: nat where
  "VOLUME_CHANGE_DEBOUNCE_MS = 500"

definition init :: dial where
  "init = \<lparr> sonos = None, lastKnownVolume = 50, isMuted = False, pollInterval = None,
            pollTimeoutId = None, currentAction = None, currentSettings = None,
            volumeChangeTimeout = None, isRotating = False,
            timers = [], nextTimer = 0, awaiting = [], trace = [] \<rparr>"

definition emit :: "effect list \<Rightarrow> dial \<Rightarrow> dial" where
  "emit es s = s\<lparr>trace := trace s @ es\<rparr>"

definition suspend :: "pending \<Rightarrow> dial \<Rightarrow> dial" where
  "suspend p s = s\<lparr>awaiting := awaiting s @ [p]\<rparr>"

text \<open>\<^verbatim>\<open>setTimeout\<close> returns the handle \<open>nextTimer s\<close>; \<^verbatim>\<open>clearTimeout\<close> of a handle
  that has fired or was cleared does nothing.\<close>

definition setTimeout :: "callback \<Rightarrow> nat \<Rightarrow> dial \<Rightarrow> dial" where
  "setTimeout c d s =
     s\<lparr>timers := timers s @ [\<lparr>tid = nextTimer s, delay = d, cb = c\<rparr>],
       nextTimer := Suc (nextTimer s)\<rparr>"

definition clearTimeout :: "nat \<Rightarrow> dial \<Rightarrow> dial" where
  "clearTimeout i s = s\<lparr>timers := filter (\<lambda>t. tid t \<noteq> i) (timers s)\<rparr>"

text \<open>\<^verbatim>\<open>if (speakerIp)\<close>: an address that is defined and not the empty string.\<close>

definition configured :: "string option \<Rightarrow> string option" where
  "configured ip = (case ip of None \<Rightarrow> None | Some a \<Rightarrow> if a = [] then None else Some a)"

text \<open>\<^verbatim>\<open>{ ...this.currentSettings }\<close>: spreading \<^verbatim>\<open>null\<close> gives the empty object.\<close>

definition spread :: "settings option \<Rightarrow> settings" where
  "spread c = (case c of None \<Rightarrow> \<lparr>svalue = None, speakerIp = None, volumeStep = None\<rparr>
                       | Some st \<Rightarrow> st)"

definition showAlert :: "action \<Rightarrow> string \<Rightarrow> dial \<Rightarrow> dial" where
  "showAlert a message s = emit [ShowAlert a, Log Error ''SonosVolumeDial'' message] s"

section \<open>The reconciliation poller\<close>

definition stopPolling :: "dial \<Rightarrow> dial" where
  "stopPolling s =
    (let s1 = (if pollInterval s \<noteq> None
               then (emit [Log Debug ''SonosVolumeDial'' ''Stopping polling''] s)
                      \<lparr>pollInterval := None\<rparr>
               else s);
         s2 = (case pollTimeoutId s1 of
                 Some t \<Rightarrow> (clearTimeout t s1)\<lparr>pollTimeoutId := None\<rparr>
               | None \<Rightarrow> s1)
     in s2\<lparr>currentAction := None, currentSettings := None\<rparr>)"

text \<open>The \<^verbatim>\<open>finally\<close> block of \<^verbatim>\<open>pollWithDelay\<close>.\<close>

definition pollWithDelay_finally :: "dial \<Rightarrow> dial" where
  "pollWithDelay_finally s =
    (if pollInterval s = Some True
     then (let s1 = (case pollTimeoutId s of Some t \<Rightarrow> clearTimeout t s | None \<Rightarrow> s)
           in (setTimeout PollWake POLLING_INTERVAL_MS s1)
                \<lparr>pollTimeoutId := Some (nextTimer s1)\<rparr>)
     else s)"

text \<open>The inner \<^verbatim>\<open>catch\<close> block of \<^verbatim>\<open>pollWithDelay\<close>.\<close>

definition pollWithDelay_catch :: "dial \<Rightarrow> dial" where
  "pollWithDelay_catch s =
     (emit [Log Error ''Polling'' ''Failed to poll speaker state:''] s)\<lparr>sonos := None\<rparr>"

text \<open>\<^verbatim>\<open>Promise.all([this.sonos.getVolume(), this.sonos.getMuted()])\<close>: both calls are
  issued, then the handler is suspended.\<close>

definition pollWithDelay_read :: "string \<Rightarrow> dial \<Rightarrow> dial" where
  "pollWithDelay_read h s = suspend AwaitPollRead (emit [GetVolume h, GetMuted h] s)"

text \<open>\<^verbatim>\<open>pollWithDelay\<close> up to its \<^verbatim>\<open>await\<close>.\<close>

definition pollWithDelay :: "dial \<Rightarrow> dial" where
  "pollWithDelay s =
    (if pollInterval s \<noteq> Some True then s
     else if currentAction s = None \<or> currentSettings s = None
     then pollWithDelay_finally (stopPolling
            (emit [Log Debug ''Polling'' ''No current action or settings, stopping polling''] s))
     else (case sonos s of
             Some h \<Rightarrow> pollWithDelay_read h s
           | None \<Rightarrow>
              (case configured (speakerIp (spread (currentSettings s))) of
                 Some ip \<Rightarrow>
                   pollWithDelay_read ip
                     ((emit [Log Info ''Polling'' ''Reconnecting to speaker:'', NewSonos ip] s)
                        \<lparr>sonos := Some ip\<rparr>)
               | None \<Rightarrow>
                   pollWithDelay_finally (stopPolling
                     (emit [Log Debug ''Polling'' ''No speaker IP, stopping polling''] s)))))"

text \<open>\<^verbatim>\<open>pollWithDelay\<close> from the completion of its \<^verbatim>\<open>await\<close> to the end. In the
  update branch \<^verbatim>\<open>this.currentAction.setFeedback\<close> throws when \<^verbatim>\<open>stopPolling\<close> ran
  during the read; the error is caught by the same \<^verbatim>\<open>catch\<close> block.\<close>

definition pollWithDelay_settled :: "reply \<Rightarrow> dial \<Rightarrow> dial" where
  "pollWithDelay_settled r s =
    (case r of
       Rejected \<Rightarrow> pollWithDelay_finally (pollWithDelay_catch s)
     | Resolved volume muted \<Rightarrow>
        (if (volume \<noteq> lastKnownVolume s \<or> muted \<noteq> isMuted s) \<and> \<not> isRotating s
         then (let s1 = (emit [Log Debug ''Polling'' ''Speaker state changed externally - volume:''] s)
                          \<lparr>lastKnownVolume := volume, isMuted := muted\<rparr>
               in (case currentAction s1 of
                     None \<Rightarrow> pollWithDelay_finally (pollWithDelay_catch s1)
                   | Some a \<Rightarrow>
                       pollWithDelay_finally
                         (emit [SetFeedback a volume (opacity_of muted),
                                SetSettings a ((spread (currentSettings s1))\<lparr>svalue := Some volume\<rparr>)]
                            s1)))
         else pollWithDelay_finally s))"

definition startPolling :: "action \<Rightarrow> dial \<Rightarrow> dial" where
  "startPolling a s =
    (if pollInterval s = Some True
     then emit [Log Debug ''Polling'' ''Polling already active, skipping''] s
     else (let s1 = (if pollInterval s \<noteq> None then s\<lparr>pollInterval := None\<rparr> else s);
               s2 = (case pollTimeoutId s1 of
                       Some t \<Rightarrow> (clearTimeout t s1)\<lparr>pollTimeoutId := None\<rparr>
                     | None \<Rightarrow> s1);
               s3 = s2\<lparr>currentAction := Some a\<rparr>
           in if currentAction s3 = None \<or> currentSettings s3 = None
              then emit [Log Debug ''Polling'' ''Missing required state, cannot start polling''] s3
              else pollWithDelay
                     ((emit [Log Debug ''Polling'' ''Starting polling''] s3)
                        \<lparr>pollInterval := Some True\<rparr>)))"

section \<open>Lifecycle\<close>

definition onWillDisappear :: "dial \<Rightarrow> dial" where
  "onWillDisappear s =
    stopPolling
      (case volumeChangeTimeout s of
         Some t \<Rightarrow> (clearTimeout t s)\<lparr>volumeChangeTimeout := None\<rparr>
       | None \<Rightarrow> s)"

definition onWillAppear :: "action \<Rightarrow> settings \<Rightarrow> dial \<Rightarrow> dial" where
  "onWillAppear a st s =
    (if \<not> isDial a then s
     else (let v = (case svalue st of None \<Rightarrow> 50 | Some x \<Rightarrow> x);
               k = (case volumeStep st of None \<Rightarrow> 5 | Some x \<Rightarrow> x);
               s1 = s\<lparr>currentAction := Some a, currentSettings := Some st\<rparr>;
               s2 = emit [SetFeedback a v (opacity_of (isMuted s1))] s1
           in (case configured (speakerIp st) of
                 Some ip \<Rightarrow>
                   suspend (AwaitAppear a st)
                     ((emit [Log Info ''WillAppear'' ''Connecting to Sonos speaker:'',
                             NewSonos ip, GetVolume ip, GetMuted ip] s2)
                        \<lparr>sonos := Some ip\<rparr>)
               | None \<Rightarrow>
                   emit [Log Warn ''WillAppear'' ''No speaker IP configured'',
                         SetSettings a \<lparr>svalue = Some v, speakerIp = None, volumeStep = Some k\<rparr>]
                     s2)))"

definition onWillAppear_settled :: "action \<Rightarrow> settings \<Rightarrow> reply \<Rightarrow> dial \<Rightarrow> dial" where
  "onWillAppear_settled a st r s =
    (let v = (case svalue st of None \<Rightarrow> 50 | Some x \<Rightarrow> x);
         k = (case volumeStep st of None \<Rightarrow> 5 | Some x \<Rightarrow> x)
     in (case r of
           Resolved volume muted \<Rightarrow>
             startPolling a
               (emit [SetFeedback a volume (opacity_of muted),
                      SetSettings a \<lparr>svalue = Some volume, speakerIp = speakerIp st,
                                     volumeStep = Some k\<rparr>]
                  (s\<lparr>lastKnownVolume := volume, isMuted := muted\<rparr>))
         | Rejected \<Rightarrow>
             emit [SetSettings a \<lparr>svalue = Some v, speakerIp = speakerIp st,
                                  volumeStep = Some k\<rparr>]
               (showAlert a ''Failed to connect to speaker''
                  ((emit [Log Error ''WillAppear'' ''Failed to connect to speaker:''] s)
                     \<lparr>sonos := None\<rparr>))))"

section \<open>Rotation and the debounced write\<close>

definition onDialRotate :: "action \<Rightarrow> settings \<Rightarrow> int \<Rightarrow> dial \<Rightarrow> dial" where
  "onDialRotate a st ticks s =
    (let v = (case svalue st of None \<Rightarrow> lastKnownVolume s | Some x \<Rightarrow> x);
         k = (case volumeStep st of None \<Rightarrow> 5 | Some x \<Rightarrow> x);
         s1 = s\<lparr>isRotating := True, currentSettings := Some st\<rparr>;
         newValue = max 0 (min 100 (v + ticks * k));
         s2 = (emit [SetFeedback a newValue (opacity_of (isMuted s1)),
                     SetSettings a ((spread (currentSettings s1))\<lparr>svalue := Some newValue\<rparr>)] s1)
                \<lparr>lastKnownVolume := newValue\<rparr>;
         s3 = (case volumeChangeTimeout s2 of
                 Some t \<Rightarrow> (clearTimeout t s2)\<lparr>volumeChangeTimeout := None\<rparr>
               | None \<Rightarrow> s2)
     in (case configured (speakerIp st) of
           Some ip \<Rightarrow>
             (setTimeout (VolumeChange a ip newValue) VOLUME_CHANGE_DEBOUNCE_MS s3)
               \<lparr>volumeChangeTimeout := Some (nextTimer s3)\<rparr>
         | None \<Rightarrow>
             (showAlert a ''No speaker IP configured''
                (emit [Log Warn ''DialRotate'' ''No speaker IP configured''] s3))
               \<lparr>isRotating := False\<rparr>))"

text \<open>The \<^verbatim>\<open>catch\<close> and \<^verbatim>\<open>finally\<close> blocks of the debounced callback.\<close>

definition volumeChange_catch :: "action \<Rightarrow> dial \<Rightarrow> dial" where
  "volumeChange_catch a s =
     showAlert a ''Failed to update volume''
       ((emit [Log Error ''DialRotate'' ''Failed to update volume:''] s)\<lparr>sonos := None\<rparr>)"

definition volumeChange_finally :: "action \<Rightarrow> dial \<Rightarrow> dial" where
  "volumeChange_finally a s = startPolling a (s\<lparr>isRotating := False\<rparr>)"

text \<open>\<^verbatim>\<open>await this.sonos.setVolume(newValue)\<close>: the field is read when the call is made,
  and a \<^verbatim>\<open>null\<close> there throws into the \<^verbatim>\<open>catch\<close> block.\<close>

definition volumeChange_setVolume :: "action \<Rightarrow> string \<Rightarrow> int \<Rightarrow> dial \<Rightarrow> dial" where
  "volumeChange_setVolume a ip newValue s =
    (case sonos s of
       None \<Rightarrow> volumeChange_finally a (volumeChange_catch a s)
     | Some h \<Rightarrow> suspend (AwaitSetVolume a ip newValue) (emit [SetVolume h newValue] s))"

text \<open>The debounced callback up to its first \<^verbatim>\<open>await\<close>.\<close>

definition volumeChange :: "action \<Rightarrow> string \<Rightarrow> int \<Rightarrow> dial \<Rightarrow> dial" where
  "volumeChange a ip newValue s =
    (let s1 = (case sonos s of
                 None \<Rightarrow> (emit [Log Info ''DialRotate'' ''Reconnecting to speaker:'', NewSonos ip] s)
                           \<lparr>sonos := Some ip\<rparr>
               | Some h \<Rightarrow> s)
     in if isMuted s1
        then (case sonos s1 of
                None \<Rightarrow> volumeChange_finally a (volumeChange_catch a s1)
              | Some h \<Rightarrow> suspend (AwaitUnmute a ip newValue) (emit [SetMuted h False] s1))
        else volumeChange_setVolume a ip newValue s1)"

text \<open>After \<^verbatim>\<open>await this.sonos.setMuted(false)\<close>.\<close>

definition volumeChange_unmuted :: "action \<Rightarrow> string \<Rightarrow> int \<Rightarrow> reply \<Rightarrow> dial \<Rightarrow> dial" where
  "volumeChange_unmuted a ip newValue r s =
    (case r of
       Rejected \<Rightarrow> volumeChange_finally a (volumeChange_catch a s)
     | Resolved x y \<Rightarrow> volumeChange_setVolume a ip newValue (s\<lparr>isMuted := False\<rparr>))"

text \<open>After \<^verbatim>\<open>await this.sonos.setVolume(newValue)\<close>.\<close>

definition volumeChange_written :: "action \<Rightarrow> reply \<Rightarrow> dial \<Rightarrow> dial" where
  "volumeChange_written a r s =
    (case r of
       Rejected \<Rightarrow> volumeChange_finally a (volumeChange_catch a s)
     | Resolved x y \<Rightarrow> volumeChange_finally a s)"

section \<open>Mute toggle: dial press and touch tap\<close>

definition onDialUp_catch :: "action \<Rightarrow> dial \<Rightarrow> dial" where
  "onDialUp_catch a s =
     showAlert a ''Failed to toggle mute''
       ((emit [Log Error ''DialUp'' ''Failed to toggle mute:''] s)\<lparr>sonos := None\<rparr>)"

text \<open>The callback of \<^verbatim>\<open>Promise.resolve().then\<close> in \<^verbatim>\<open>onDialUp\<close>, up to its \<^verbatim>\<open>await\<close>.\<close>

definition onDialUp_then :: "action \<Rightarrow> string \<Rightarrow> bool \<Rightarrow> dial \<Rightarrow> dial" where
  "onDialUp_then a ip newMutedState s =
    (let s1 = (case sonos s of
                 Some h \<Rightarrow> s
               | None \<Rightarrow>
                  (let s2 = (emit [Log Info ''DialUp'' ''Reconnecting to speaker:'', NewSonos ip] s)
                              \<lparr>sonos := Some ip\<rparr>
                   in if pollInterval s2 = None then startPolling a s2 else s2))
     in (case sonos s1 of
           None \<Rightarrow> onDialUp_catch a s1
         | Some h \<Rightarrow> suspend (AwaitDialUp a) (emit [SetMuted h newMutedState] s1)))"

text \<open>\<^verbatim>\<open>onDialUp\<close>; the microtask runs as soon as the handler returns, before any other
  event is delivered.\<close>

definition onDialUp :: "action \<Rightarrow> settings \<Rightarrow> dial \<Rightarrow> dial" where
  "onDialUp a st s =
    (let newMutedState = (\<not> isMuted s);
         s1 = emit [SetFeedback a (lastKnownVolume s) (opacity_of newMutedState)]
                (s\<lparr>isMuted := newMutedState\<rparr>)
     in (case configured (speakerIp st) of
           Some ip \<Rightarrow> onDialUp_then a ip newMutedState s1
         | None \<Rightarrow>
             showAlert a ''No speaker IP configured''
               (emit [Log Warn ''DialUp'' ''No speaker IP configured''] s1)))"

definition onDialUp_settled :: "action \<Rightarrow> reply \<Rightarrow> dial \<Rightarrow> dial" where
  "onDialUp_settled a r s =
    (case r of Rejected \<Rightarrow> onDialUp_catch a s | Resolved x y \<Rightarrow> s)"

definition onTouchTap_catch :: "action \<Rightarrow> dial \<Rightarrow> dial" where
  "onTouchTap_catch a s =
     showAlert a ''Failed to toggle mute''
       ((emit [Log Error ''TouchTap'' ''Failed to toggle mute:''] s)\<lparr>sonos := None\<rparr>)"

definition onTouchTap_then :: "action \<Rightarrow> string \<Rightarrow> bool \<Rightarrow> dial \<Rightarrow> dial" where
  "onTouchTap_then a ip newMutedState s =
    (let s1 = (case sonos s of
                 Some h \<Rightarrow> s
               | None \<Rightarrow>
                  (let s2 = (emit [Log Info ''TouchTap'' ''Reconnecting to speaker:'', NewSonos ip] s)
                              \<lparr>sonos := Some ip\<rparr>
                   in if pollInterval s2 = None then startPolling a s2 else s2))
     in (case sonos s1 of
           None \<Rightarrow> onTouchTap_catch a s1
         | Some h \<Rightarrow> suspend (AwaitTouchTap a) (emit [SetMuted h newMutedState] s1)))"

definition onTouchTap :: "action \<Rightarrow> settings \<Rightarrow> dial \<Rightarrow> dial" where
  "onTouchTap a st s =
    (let newMutedState = (\<not> isMuted s);
         s1 = emit [SetFeedback a (lastKnownVolume s) (opacity_of newMutedState)]
                (s\<lparr>isMuted := newMutedState\<rparr>)
     in (case configured (speakerIp st) of
           Some ip \<Rightarrow> onTouchTap_then a ip newMutedState s1
         | None \<Rightarrow>
             showAlert a ''No speaker IP configured''
               (emit [Log Warn ''TouchTap'' ''No speaker IP configured''] s1)))"

definition onTouchTap_settled :: "action \<Rightarrow> reply \<Rightarrow> dial \<Rightarrow> dial" where
  "onTouchTap_settled a r s =
    (case r of Rejected \<Rightarrow> onTouchTap_catch a s | Resolved x y \<Rightarrow> s)"

section \<open>Settings updates\<close>

text \<open>\<^verbatim>\<open>onDidReceiveSettings\<close> up to its \<^verbatim>\<open>await\<close>. The handler stores the new
  settings first and compares the new address with \<^verbatim>\<open>this.currentSettings?.speakerIp\<close>
  afterwards.\<close>

definition onDidReceiveSettings :: "action \<Rightarrow> settings \<Rightarrow> dial \<Rightarrow> dial" where
  "onDidReceiveSettings a st s =
    (if \<not> isDial a then s
     else (let s1 = s\<lparr>currentSettings := Some st\<rparr>
           in if speakerIp st \<noteq> speakerIp (spread (currentSettings s1))
              then (let s2 = stopPolling (s1\<lparr>sonos := None\<rparr>)
                    in (case configured (speakerIp st) of
                          Some ip \<Rightarrow>
                            suspend (AwaitSettingsRead a st)
                              ((emit [Log Info ''DidReceiveSettings'' ''Connecting to new speaker:'',
                                      NewSonos ip, GetVolume ip, GetMuted ip] s2)
                                 \<lparr>sonos := Some ip\<rparr>)
                        | None \<Rightarrow> s2))
              else s1))"

definition onDidReceiveSettings_settled :: "action \<Rightarrow> settings \<Rightarrow> reply \<Rightarrow> dial \<Rightarrow> dial" where
  "onDidReceiveSettings_settled a st r s =
    (case r of
       Resolved volume muted \<Rightarrow>
         startPolling a
           (emit [SetFeedback a volume (opacity_of muted),
                  SetSettings a (st\<lparr>svalue := Some volume\<rparr>)]
              (s\<lparr>lastKnownVolume := volume, isMuted := muted\<rparr>))
     | Rejected \<Rightarrow>
         showAlert a ''Failed to connect to speaker''
           ((emit [Log Error ''DidReceiveSettings'' ''Failed to connect to new speaker:''] s)
              \<lparr>sonos := None\<rparr>))"

section \<open>The event loop\<close>

datatype event =
    WillAppear action settings
  | WillDisappear
  | DialRotate action settings int
  | DialUp action settings
  | TouchTap action settings
  | DidReceiveSettings action settings
  | TimerFires nat
  | Settles nat reply

text \<open>The body of a timer callback.\<close>

definition fire :: "callback \<Rightarrow> dial \<Rightarrow> dial" where
  "fire c s =
    (case c of
       PollWake \<Rightarrow>
         (let s1 = s\<lparr>pollTimeoutId := None\<rparr>
          in if pollInterval s1 = Some True then pollWithDelay s1 else s1)
     | VolumeChange a ip newValue \<Rightarrow> volumeChange a ip newValue s)"

text \<open>The continuation of a suspended handler.\<close>

definition resume :: "pending \<Rightarrow> reply \<Rightarrow> dial \<Rightarrow> dial" where
  "resume p r s =
    (case p of
       AwaitPollRead \<Rightarrow> pollWithDelay_settled r s
     | AwaitAppear a st \<Rightarrow> onWillAppear_settled a st r s
     | AwaitUnmute a ip newValue \<Rightarrow> volumeChange_unmuted a ip newValue r s
     | AwaitSetVolume a ip newValue \<Rightarrow> volumeChange_written a r s
     | AwaitDialUp a \<Rightarrow> onDialUp_settled a r s
     | AwaitTouchTap a \<Rightarrow> onTouchTap_settled a r s
     | AwaitSettingsRead a st \<Rightarrow> onDidReceiveSettings_settled a st r s)"

text \<open>One event. A timer that is not set does not fire; a timer that fires leaves the
  set of timers; the \<open>i\<close>-th suspended handler resumes with the outcome of its call.\<close>

fun step :: "event \<Rightarrow> dial \<Rightarrow> dial" where
  "step (WillAppear a st) s = onWillAppear a st s"
| "step WillDisappear s = onWillDisappear s"
| "step (DialRotate a st ticks) s = onDialRotate a st ticks s"
| "step (DialUp a st) s = onDialUp a st s"
| "step (TouchTap a st) s = onTouchTap a st s"
| "step (DidReceiveSettings a st) s = onDidReceiveSettings a st s"
| "step (TimerFires i) s =
     (case find (\<lambda>t. tid t = i) (timers s) of
        None \<Rightarrow> s
      | Some t \<Rightarrow> fire (cb t) (clearTimeout i s))"
| "step (Settles i r) s =
     (if i < length (awaiting s)
      then resume (awaiting s ! i) r
             (s\<lparr>awaiting := take i (awaiting s) @ drop (Suc i) (awaiting s)\<rparr>)
      else s)"

definition run :: "event list \<Rightarrow> dial \<Rightarrow> dial" where
  "run evs s = fold step evs s"

section \<open>The action registered by \<^verbatim>\<open>src/plugin.ts\<close>: \<^verbatim>\<open>SonosVolumeControl\<close>\<close>

text \<open>\<^verbatim>\<open>SonosSettings\<close>; every field is optional.\<close>

record sonosSettings =
  sc_speakerIp :: "string option"
  sc_volumeStep :: "int option"
  currentVolume :: "int option"
  sc_isMuted :: "bool option"

text \<open>The feedback of \<^verbatim>\<open>updateVolumeDisplay\<close>: the title (\<^verbatim>\<open>"MUTED"\<close> or
  \<^verbatim>\<open>Volume n%\<close>), the value (\<^verbatim>\<open>"Muted"\<close> or \<^verbatim>\<open>n%\<close>) and the value of the
  indicator. On integers \<^verbatim>\<open>Math.round\<close> is the identity.\<close>

datatype title = TitleMuted | TitleVolume int

datatype valueText = ValueMuted | ValuePercent int

datatype controlEffect =
    ControlSetSettings action sonosSettings
  | ControlSetFeedback action title valueText int

definition updateVolumeDisplay :: "action \<Rightarrow> int \<Rightarrow> bool \<Rightarrow> controlEffect" where
  "updateVolumeDisplay a volume muted =
     ControlSetFeedback a
       (if muted then TitleMuted else TitleVolume volume)
       (if muted then ValueMuted else ValuePercent volume)
       (if muted then 0 else volume)"

text \<open>\<^verbatim>\<open>SonosVolumeControl.onDialRotate\<close>: the settings of the event after the handler
  (it assigns to \<^verbatim>\<open>settings.currentVolume\<close>) and the calls it made on the host.\<close>

definition control_onDialRotate ::
    "action \<Rightarrow> sonosSettings \<Rightarrow> int \<Rightarrow> sonosSettings \<times> controlEffect list" where
  "control_onDialRotate a st ticks =
    (let k = (case sc_volumeStep st of None \<Rightarrow> 2 | Some x \<Rightarrow> x)
     in if sc_isMuted st = Some True then (st, [])
        else (let volumeChange = k * ticks;
                  cur = (case currentVolume st of None \<Rightarrow> 50 | Some x \<Rightarrow> x);
                  newVolume = max 0 (min 100 (cur + volumeChange));
                  st' = st\<lparr>currentVolume := Some newVolume\<rparr>
              in (st', [ControlSetSettings a st', updateVolumeDisplay a newVolume False])))"

section \<open>Notions used in the statements\<close>

text \<open>The value a rotation starts from (\<^verbatim>\<open>value = this.lastKnownVolume\<close> in the
  destructuring: the value of the event's settings, the cached volume when they carry
  none), the step (default 5) and the clamped result.\<close>

definition previousValue :: "settings \<Rightarrow> dial \<Rightarrow> int" where
  "previousValue st s = (case svalue st of None \<Rightarrow> lastKnownVolume s | Some x \<Rightarrow> x)"

definition stepOf :: "settings \<Rightarrow> int" where
  "stepOf st = (case volumeStep st of None \<Rightarrow> 5 | Some x \<Rightarrow> x)"

definition newValueOf :: "settings \<Rightarrow> int \<Rightarrow> dial \<Rightarrow> int" where
  "newValueOf st ticks s = max 0 (min 100 (previousValue st s + ticks * stepOf st))"

text \<open>Every timer that is set is referenced by the field of its kind: a poll wake by
  \<^verbatim>\<open>pollTimeoutId\<close>, a debounced write by \<^verbatim>\<open>volumeChangeTimeout\<close>.\<close>

definition owner :: "dial \<Rightarrow> callback \<Rightarrow> nat option" where
  "owner s c = (case c of PollWake \<Rightarrow> pollTimeoutId s
                        | VolumeChange a ip v \<Rightarrow> volumeChangeTimeout s)"

definition timers_owned :: "dial \<Rightarrow> bool" where
  "timers_owned s = list_all (\<lambda>t. owner s (cb t) = Some (tid t)) (timers s)"

text \<open>The arguments of the \<^verbatim>\<open>setVolume\<close> calls of a trace, in order.\<close>

fun setVolume_calls :: "effect list \<Rightarrow> int list" where
  "setVolume_calls [] = []"
| "setVolume_calls (SetVolume h v # es) = v # setVolume_calls es"
| "setVolume_calls (e # es) = setVolume_calls es"

text \<open>A trace without its log entries: the calls on the host and on the device.\<close>

definition is_log :: "effect \<Rightarrow> bool" where
  "is_log e = (case e of Log l sc m \<Rightarrow> True | _ \<Rightarrow> False)"

definition calls :: "effect list \<Rightarrow> effect list" where
  "calls tr = filter (\<lambda>e. \<not> is_log e) tr"

text \<open>Concrete inputs: a dial, settings with and without a speaker address, and the
  state after the control appeared, the speaker answered (volume 30, not muted) and the
  first poll completed.\<close>

definition theDial :: action where
  "theDial = \<lparr>aid = 0, isDial = True\<rparr>"

definition livingRoom :: settings where
  "livingRoom = \<lparr>svalue = Some 50, speakerIp = Some ''192.168.1.10'', volumeStep = Some 5\<rparr>"

definition kitchen :: settings where
  "kitchen = \<lparr>svalue = Some 50, speakerIp = Some ''192.168.1.20'', volumeStep = Some 5\<rparr>"

definition unconfigured :: settings where
  "unconfigured = \<lparr>svalue = Some 50, speakerIp = None, volumeStep = Some 5\<rparr>"

definition connected :: dial where
  "connected = run [WillAppear theDial livingRoom, Settles 0 (Resolved 30 False),
                   Settles 0 (Resolved 30 False)] init"

text \<open>The state while a rotation is pending and a poll is in flight: from \<open>connected\<close>, the
  poll timer fires, then the dial is turned three ticks.\<close>

definition rotating :: dial where
  "rotating = run [TimerFires 0, DialRotate theDial livingRoom 3] connected"

text \<open>What can be observed of a state when the log is left out: every field, the timers,
  the calls of the trace, and the suspended handlers, where the continuation of a tap
  is identified with the continuation of a press.\<close>

definition unscoped :: "pending \<Rightarrow> pending" where
  "unscoped p = (case p of AwaitTouchTap a \<Rightarrow> AwaitDialUp a | _ \<Rightarrow> p)"

definition observe :: "dial \<Rightarrow> dial" where
  "observe s = s\<lparr>awaiting := map unscoped (awaiting s), trace := calls (trace s)\<rparr>"

text \<open>From \<open>rotating\<close>: the debounce timer fires and the write is in flight; the write
  is rejected; the dial is turned once more.\<close>

definition writing :: dial where
  "writing = run [TimerFires 1] rotating"

definition failed :: dial where
  "failed = run [Settles 1 Rejected] writing"

definition retrying :: dial where
  "retrying = run [DialRotate theDial livingRoom 1] failed"

text \<open>\<open>rebuilt s s'\<close>: the trace of \<open>s'\<close> continues that of \<open>s\<close>, and \<open>s'\<close> holds no handle
  older than \<open>s\<close>: its handle is absent, or was constructed (\<^verbatim>\<open>new Sonos\<close>) after \<open>s\<close>.\<close>

definition rebuilt :: "dial \<Rightarrow> dial \<Rightarrow> bool" where
  "rebuilt s s' =
     (take (length (trace s)) (trace s') = trace s \<and>
      (case sonos s' of
         None \<Rightarrow> True
       | Some h \<Rightarrow> NewSonos h \<in> set (drop (length (trace s)) (trace s'))))"

text \<open>Timer handles are issued in increasing order: every timer that is set has a handle
  below \<open>nextTimer\<close>.\<close>

definition timers_fresh :: "dial \<Rightarrow> bool" where
  "timers_fresh s = list_all (\<lambda>t. tid t < nextTimer s) (timers s)"

text \<open>A burst of rotation events, each with the action, the settings and the tick count of
  its payload.\<close>

definition burst :: "(action \<times> settings \<times> int) list \<Rightarrow> event list" where
  "burst ticks = map (\<lambda>(a, st, k). DialRotate a st k) ticks"

text \<open>Concrete bursts and states: three ticks of \<open>+1\<close> whose payloads carry the values 50,
  55 and 60 (the host returns the settings the handler stored), and the state after them;
  a speaker that reported itself muted when the control appeared, before and after a
  rotation; a control without an address that was muted locally by a press.\<close>

definition threeTicks :: "(action \<times> settings \<times> int) list" where
  "threeTicks = [(theDial, livingRoom\<lparr>svalue := Some 50\<rparr>, 1),
                 (theDial, livingRoom\<lparr>svalue := Some 55\<rparr>, 1),
                 (theDial, livingRoom\<lparr>svalue := Some 60\<rparr>, 1)]"

definition spun :: dial where
  "spun = run (burst threeTicks) connected"

definition mutedSpeaker :: dial where
  "mutedSpeaker = run [WillAppear theDial livingRoom, Settles 0 (Resolved 30 True)] init"

definition localOnly :: dial where
  "localOnly = run [WillAppear theDial unconfigured, DialUp theDial unconfigured] init"

definition mutedTurned :: dial where
  "mutedTurned = run [DialRotate theDial livingRoom 3] mutedSpeaker"

text \<open>From \<open>mutedTurned\<close>: the debounce timer fires and \<^verbatim>\<open>setMuted(false)\<close> is
  awaited; while it is awaited the poll read that was in flight is rejected, which
  clears the handle.\<close>

definition unmuting :: dial where
  "unmuting = run [TimerFires 0] mutedTurned"

definition interrupted :: dial where
  "interrupted = run [TimerFires 0, Settles 0 Rejected] mutedTurned"

section \<open>The fields after each operation\<close>

lemma emit_fields [simp]:
  "sonos (emit es s) = sonos s"
  "lastKnownVolume (emit es s) = lastKnownVolume s"
  "isMuted (emit es s) = isMuted s"
  "pollInterval (emit es s) = pollInterval s"
  "pollTimeoutId (emit es s) = pollTimeoutId s"
  "currentAction (emit es s) = currentAction s"
  "currentSettings (emit es s) = currentSettings s"
  "volumeChangeTimeout (emit es s) = volumeChangeTimeout s"
  "isRotating (emit es s) = isRotating s"
  "timers (emit es s) = timers s"
  "nextTimer (emit es s) = nextTimer s"
  "awaiting (emit es s) = awaiting s"
  "trace (emit es s) = trace s @ es"
  by (simp_all add: emit_def)

lemma suspend_fields [simp]:
  "sonos (suspend p s) = sonos s"
  "lastKnownVolume (suspend p s) = lastKnownVolume s"
  "isMuted (suspend p s) = isMuted s"
  "pollInterval (suspend p s) = pollInterval s"
  "pollTimeoutId (suspend p s) = pollTimeoutId s"
  "currentAction (suspend p s) = currentAction s"
  "currentSettings (suspend p s) = currentSettings s"
  "volumeChangeTimeout (suspend p s) = volumeChangeTimeout s"
  "isRotating (suspend p s) = isRotating s"
  "timers (suspend p s) = timers s"
  "nextTimer (suspend p s) = nextTimer s"
  "awaiting (suspend p s) = awaiting s @ [p]"
  "trace (suspend p s) = trace s"
  by (simp_all add: suspend_def)

lemma setTimeout_fields [simp]:
  "sonos (setTimeout c d s) = sonos s"
  "lastKnownVolume (setTimeout c d s) = lastKnownVolume s"
  "isMuted (setTimeout c d s) = isMuted s"
  "pollInterval (setTimeout c d s) = pollInterval s"
  "pollTimeoutId (setTimeout c d s) = pollTimeoutId s"
  "currentAction (setTimeout c d s) = currentAction s"
  "currentSettings (setTimeout c d s) = currentSettings s"
  "volumeChangeTimeout (setTimeout c d s) = volumeChangeTimeout s"
  "isRotating (setTimeout c d s) = isRotating s"
  "timers (setTimeout c d s) = timers s @ [\<lparr>tid = nextTimer s, delay = d, cb = c\<rparr>]"
  "nextTimer (setTimeout c d s) = Suc (nextTimer s)"
  "awaiting (setTimeout c d s) = awaiting s"
  "trace (setTimeout c d s) = trace s"
  by (simp_all add: setTimeout_def)

lemma clearTimeout_fields [simp]:
  "sonos (clearTimeout i s) = sonos s"
  "lastKnownVolume (clearTimeout i s) = lastKnownVolume s"
  "isMuted (clearTimeout i s) = isMuted s"
  "pollInterval (clearTimeout i s) = pollInterval s"
  "pollTimeoutId (clearTimeout i s) = pollTimeoutId s"
  "currentAction (clearTimeout i s) = currentAction s"
  "currentSettings (clearTimeout i s) = currentSettings s"
  "volumeChangeTimeout (clearTimeout i s) = volumeChangeTimeout s"
  "isRotating (clearTimeout i s) = isRotating s"
  "timers (clearTimeout i s) = filter (\<lambda>t. tid t \<noteq> i) (timers s)"
  "nextTimer (clearTimeout i s) = nextTimer s"
  "awaiting (clearTimeout i s) = awaiting s"
  "trace (clearTimeout i s) = trace s"
  by (simp_all add: clearTimeout_def)

lemma showAlert_fields [simp]:
  "sonos (showAlert a m s) = sonos s"
  "lastKnownVolume (showAlert a m s) = lastKnownVolume s"
  "isMuted (showAlert a m s) = isMuted s"
  "pollInterval (showAlert a m s) = pollInterval s"
  "pollTimeoutId (showAlert a m s) = pollTimeoutId s"
  "currentAction (showAlert a m s) = currentAction s"
  "currentSettings (showAlert a m s) = currentSettings s"
  "volumeChangeTimeout (showAlert a m s) = volumeChangeTimeout s"
  "isRotating (showAlert a m s) = isRotating s"
  "timers (showAlert a m s) = timers s"
  "nextTimer (showAlert a m s) = nextTimer s"
  "awaiting (showAlert a m s) = awaiting s"
  "trace (showAlert a m s) = trace s @ [ShowAlert a, Log Error ''SonosVolumeDial'' m]"
  by (simp_all add: showAlert_def)

lemma stopPolling_fields [simp]:
  "sonos (stopPolling s) = sonos s"
  "lastKnownVolume (stopPolling s) = lastKnownVolume s"
  "isMuted (stopPolling s) = isMuted s"
  "pollInterval (stopPolling s) = None"
  "pollTimeoutId (stopPolling s) = None"
  "currentAction (stopPolling s) = None"
  "currentSettings (stopPolling s) = None"
  "volumeChangeTimeout (stopPolling s) = volumeChangeTimeout s"
  "isRotating (stopPolling s) = isRotating s"
  "timers (stopPolling s) = (case pollTimeoutId s of Some t \<Rightarrow> filter (\<lambda>x. tid x \<noteq> t) (timers s) | None \<Rightarrow> timers s)"
  "nextTimer (stopPolling s) = nextTimer s"
  "awaiting (stopPolling s) = awaiting s"
  "trace (stopPolling s) = trace s @ (if pollInterval s = None then [] else [Log Debug ''SonosVolumeDial'' ''Stopping polling''])"
  by (simp_all add: stopPolling_def Let_def split: option.splits)

lemma pollWithDelay_finally_fields [simp]:
  "sonos (pollWithDelay_finally s) = sonos s"
  "lastKnownVolume (pollWithDelay_finally s) = lastKnownVolume s"
  "isMuted (pollWithDelay_finally s) = isMuted s"
  "pollInterval (pollWithDelay_finally s) = pollInterval s"
  "pollTimeoutId (pollWithDelay_finally s) = (if pollInterval s = Some True then Some (nextTimer s) else pollTimeoutId s)"
  "currentAction (pollWithDelay_finally s) = currentAction s"
  "currentSettings (pollWithDelay_finally s) = currentSettings s"
  "volumeChangeTimeout (pollWithDelay_finally s) = volumeChangeTimeout s"
  "isRotating (pollWithDelay_finally s) = isRotating s"
  "timers (pollWithDelay_finally s) = (if pollInterval s = Some True then (case pollTimeoutId s of Some t \<Rightarrow> filter (\<lambda>x. tid x \<noteq> t) (timers s) | None \<Rightarrow> timers s) @ [\<lparr>tid = nextTimer s, delay = 3000, cb = PollWake\<rparr>] else timers s)"
  "nextTimer (pollWithDelay_finally s) = (if pollInterval s = Some True then Suc (nextTimer s) else nextTimer s)"
  "awaiting (pollWithDelay_finally s) = awaiting s"
  "trace (pollWithDelay_finally s) = trace s"
  by (simp_all add: pollWithDelay_finally_def POLLING_INTERVAL_MS_def Let_def split: option.splits)

lemma pollWithDelay_catch_fields [simp]:
  "sonos (pollWithDelay_catch s) = None"
  "lastKnownVolume (pollWithDelay_catch s) = lastKnownVolume s"
  "isMuted (pollWithDelay_catch s) = isMuted s"
  "pollInterval (pollWithDelay_catch s) = pollInterval s"
  "pollTimeoutId (pollWithDelay_catch s) = pollTimeoutId s"
  "currentAction (pollWithDelay_catch s) = currentAction s"
  "currentSettings (pollWithDelay_catch s) = currentSettings s"
  "volumeChangeTimeout (pollWithDelay_catch s) = volumeChangeTimeout s"
  "isRotating (pollWithDelay_catch s) = isRotating s"
  "timers (pollWithDelay_catch s) = timers s"
  "nextTimer (pollWithDelay_catch s) = nextTimer s"
  "awaiting (pollWithDelay_catch s) = awaiting s"
  "trace (pollWithDelay_catch s) = trace s @ [Log Error ''Polling'' ''Failed to poll speaker state:'']"
  by (simp_all add: pollWithDelay_catch_def)

lemma pollWithDelay_read_fields [simp]:
  "sonos (pollWithDelay_read h s) = sonos s"
  "lastKnownVolume (pollWithDelay_read h s) = lastKnownVolume s"
  "isMuted (pollWithDelay_read h s) = isMuted s"
  "pollInterval (pollWithDelay_read h s) = pollInterval s"
  "pollTimeoutId (pollWithDelay_read h s) = pollTimeoutId s"
  "currentAction (pollWithDelay_read h s) = currentAction s"
  "currentSettings (pollWithDelay_read h s) = currentSettings s"
  "volumeChangeTimeout (pollWithDelay_read h s) = volumeChangeTimeout s"
  "isRotating (pollWithDelay_read h s) = isRotating s"
  "timers (pollWithDelay_read h s) = timers s"
  "nextTimer (pollWithDelay_read h s) = nextTimer s"
  "awaiting (pollWithDelay_read h s) = awaiting s @ [AwaitPollRead]"
  "trace (pollWithDelay_read h s) = trace s @ [GetVolume h, GetMuted h]"
  by (simp_all add: pollWithDelay_read_def)

section \<open>Timers are owned by the field of their kind\<close>

lemma owner_if: "owner s c = (if c = PollWake then pollTimeoutId s else volumeChangeTimeout s)"
  by (simp add: owner_def split: callback.split)

lemma timers_owned_iff:
  "timers_owned s =
     (\<forall>t\<in>set (timers s).
        (cb t = PollWake \<longrightarrow> pollTimeoutId s = Some (tid t)) \<and>
        (cb t \<noteq> PollWake \<longrightarrow> volumeChangeTimeout s = Some (tid t)))"
  by (auto simp: timers_owned_def list_all_iff owner_if)

lemma timers_owned_cong:
  "timers s' = timers s \<Longrightarrow> pollTimeoutId s' = pollTimeoutId s \<Longrightarrow>
   volumeChangeTimeout s' = volumeChangeTimeout s \<Longrightarrow> timers_owned s' = timers_owned s"
  by (simp add: timers_owned_iff)

lemma timers_owned_prims [simp]:
  "timers_owned (emit es s) = timers_owned s"
  "timers_owned (suspend p s) = timers_owned s"
  "timers_owned (showAlert a m s) = timers_owned s"
  "timers_owned (pollWithDelay_catch s) = timers_owned s"
  "timers_owned (pollWithDelay_read h s) = timers_owned s"
  "timers_owned (s\<lparr>sonos := x1\<rparr>) = timers_owned s"
  "timers_owned (s\<lparr>lastKnownVolume := x2\<rparr>) = timers_owned s"
  "timers_owned (s\<lparr>isMuted := x3\<rparr>) = timers_owned s"
  "timers_owned (s\<lparr>pollInterval := x4\<rparr>) = timers_owned s"
  "timers_owned (s\<lparr>currentAction := x5\<rparr>) = timers_owned s"
  "timers_owned (s\<lparr>currentSettings := x6\<rparr>) = timers_owned s"
  "timers_owned (s\<lparr>isRotating := x7\<rparr>) = timers_owned s"
  "timers_owned (s\<lparr>awaiting := x8\<rparr>) = timers_owned s"
  "timers_owned (s\<lparr>trace := x9\<rparr>) = timers_owned s"
  by (simp_all add: timers_owned_iff)

lemma timers_owned_stopPolling: "timers_owned s \<Longrightarrow> timers_owned (stopPolling s)"
  by (auto simp: timers_owned_iff split: option.splits)

lemma timers_owned_finally: "timers_owned s \<Longrightarrow> timers_owned (pollWithDelay_finally s)"
  by (auto simp: timers_owned_iff split: option.splits)

lemma timers_owned_pollWithDelay: "timers_owned s \<Longrightarrow> timers_owned (pollWithDelay s)"
  by (simp add: pollWithDelay_def timers_owned_stopPolling timers_owned_finally split: option.splits)

lemma timers_owned_settled: "timers_owned s \<Longrightarrow> timers_owned (pollWithDelay_settled r s)"
  by (simp add: pollWithDelay_settled_def Let_def timers_owned_finally split: option.splits reply.splits)

lemma timers_owned_startPolling: "timers_owned s \<Longrightarrow> timers_owned (startPolling a s)"
  apply (simp add: startPolling_def Let_def split: option.splits)
  apply (intro conjI impI allI timers_owned_pollWithDelay)
  apply (auto simp: timers_owned_iff)
  done

lemma timers_owned_clear_vc:
  "timers_owned s \<Longrightarrow>
   timers_owned (case volumeChangeTimeout s of
                   Some t \<Rightarrow> (clearTimeout t s)\<lparr>volumeChangeTimeout := None\<rparr>
                 | None \<Rightarrow> s)"
proof (cases "volumeChangeTimeout s")
  case None
  then show "timers_owned s \<Longrightarrow> ?thesis" by simp
next
  case (Some i)
  assume "timers_owned s"
  then have "timers_owned ((clearTimeout i s)\<lparr>volumeChangeTimeout := None\<rparr>)"
    using Some by (simp add: timers_owned_iff) blast
  then show ?thesis using Some by simp
qed

lemma timers_owned_onWillDisappear: "timers_owned s \<Longrightarrow> timers_owned (onWillDisappear s)"
  unfolding onWillDisappear_def
  by (intro timers_owned_stopPolling timers_owned_clear_vc)

lemma timers_owned_onWillAppear: "timers_owned s \<Longrightarrow> timers_owned (onWillAppear a st s)"
  by (simp add: onWillAppear_def Let_def split: option.splits)

lemma timers_owned_onWillAppear_settled:
  "timers_owned s \<Longrightarrow> timers_owned (onWillAppear_settled a st r s)"
  by (cases r) (simp_all add: onWillAppear_settled_def Let_def timers_owned_startPolling)

lemma onDialRotate_fields:
  "sonos (onDialRotate a st ticks s) = sonos s"
  "lastKnownVolume (onDialRotate a st ticks s) = newValueOf st ticks s"
  "isMuted (onDialRotate a st ticks s) = isMuted s"
  "pollInterval (onDialRotate a st ticks s) = pollInterval s"
  "pollTimeoutId (onDialRotate a st ticks s) = pollTimeoutId s"
  "currentAction (onDialRotate a st ticks s) = currentAction s"
  "currentSettings (onDialRotate a st ticks s) = Some st"
  "volumeChangeTimeout (onDialRotate a st ticks s) =
     (case configured (speakerIp st) of Some ip \<Rightarrow> Some (nextTimer s) | None \<Rightarrow> None)"
  "isRotating (onDialRotate a st ticks s) = (configured (speakerIp st) \<noteq> None)"
  "timers (onDialRotate a st ticks s) =
     (case volumeChangeTimeout s of
        Some t \<Rightarrow> filter (\<lambda>x. tid x \<noteq> t) (timers s) | None \<Rightarrow> timers s) @
     (case configured (speakerIp st) of
        Some ip \<Rightarrow> [\<lparr>tid = nextTimer s, delay = 500,
                     cb = VolumeChange a ip (newValueOf st ticks s)\<rparr>]
      | None \<Rightarrow> [])"
  "nextTimer (onDialRotate a st ticks s) =
     (case configured (speakerIp st) of Some ip \<Rightarrow> Suc (nextTimer s) | None \<Rightarrow> nextTimer s)"
  "awaiting (onDialRotate a st ticks s) = awaiting s"
  "trace (onDialRotate a st ticks s) =
     trace s @ [SetFeedback a (newValueOf st ticks s) (opacity_of (isMuted s)),
                SetSettings a (st\<lparr>svalue := Some (newValueOf st ticks s)\<rparr>)] @
     (case configured (speakerIp st) of
        Some ip \<Rightarrow> []
      | None \<Rightarrow> [Log Warn ''DialRotate'' ''No speaker IP configured'', ShowAlert a,
                 Log Error ''SonosVolumeDial'' ''No speaker IP configured''])"
  by (cases "configured (speakerIp st)"; cases "volumeChangeTimeout s";
      simp_all add: onDialRotate_def Let_def newValueOf_def previousValue_def stepOf_def
                    spread_def VOLUME_CHANGE_DEBOUNCE_MS_def)+

lemma timers_owned_onDialRotate: "timers_owned s \<Longrightarrow> timers_owned (onDialRotate a st ticks s)"
proof -
  assume inv: "timers_owned s"
  show ?thesis
  proof (cases "configured (speakerIp st)")
    case None
    show ?thesis
    proof (cases "volumeChangeTimeout s")
      case None
      with \<open>configured (speakerIp st) = None\<close> inv show ?thesis
        by (simp add: timers_owned_iff onDialRotate_fields)
    next
      case (Some i)
      with \<open>configured (speakerIp st) = None\<close> inv show ?thesis
        by (simp add: timers_owned_iff onDialRotate_fields) blast
    qed
  next
    case (Some ip)
    show ?thesis
    proof (cases "volumeChangeTimeout s")
      case None
      with \<open>configured (speakerIp st) = Some ip\<close> inv show ?thesis
        by (simp add: timers_owned_iff onDialRotate_fields)
    next
      case (Some i)
      with \<open>configured (speakerIp st) = Some ip\<close> inv show ?thesis
        by (simp add: timers_owned_iff onDialRotate_fields) blast
    qed
  qed
qed

lemma timers_owned_volumeChange_catch [simp]:
  "timers_owned (volumeChange_catch a s) = timers_owned s"
  by (simp add: volumeChange_catch_def)

lemma timers_owned_volumeChange_finally:
  "timers_owned s \<Longrightarrow> timers_owned (volumeChange_finally a s)"
  by (simp add: volumeChange_finally_def timers_owned_startPolling)

lemma timers_owned_volumeChange_setVolume:
  "timers_owned s \<Longrightarrow> timers_owned (volumeChange_setVolume a ip v s)"
  by (cases "sonos s") (simp_all add: volumeChange_setVolume_def timers_owned_volumeChange_finally)

lemma timers_owned_volumeChange:
  "timers_owned s \<Longrightarrow> timers_owned (volumeChange a ip v s)"
  by (cases "sonos s"; cases "isMuted s")
     (simp_all add: volumeChange_def Let_def timers_owned_volumeChange_setVolume)

lemma timers_owned_volumeChange_unmuted:
  "timers_owned s \<Longrightarrow> timers_owned (volumeChange_unmuted a ip v r s)"
  by (cases r)
     (simp_all add: volumeChange_unmuted_def timers_owned_volumeChange_setVolume
        timers_owned_volumeChange_finally)

lemma timers_owned_volumeChange_written:
  "timers_owned s \<Longrightarrow> timers_owned (volumeChange_written a r s)"
  by (cases r) (simp_all add: volumeChange_written_def timers_owned_volumeChange_finally)

lemma timers_owned_onDialUp_catch [simp]:
  "timers_owned (onDialUp_catch a s) = timers_owned s"
  by (simp add: onDialUp_catch_def)

lemma timers_owned_onTouchTap_catch [simp]:
  "timers_owned (onTouchTap_catch a s) = timers_owned s"
  by (simp add: onTouchTap_catch_def)

lemma timers_owned_onDialUp_send:
  "timers_owned x \<Longrightarrow>
   timers_owned (case sonos x of
                   None \<Rightarrow> onDialUp_catch a x
                 | Some h \<Rightarrow> suspend (AwaitDialUp a) (emit [SetMuted h m] x))"
  by (cases "sonos x") simp_all

lemma timers_owned_onDialUp_then:
  "timers_owned s \<Longrightarrow> timers_owned (onDialUp_then a ip m s)"
  unfolding onDialUp_then_def Let_def
  by (rule timers_owned_onDialUp_send, cases "sonos s")
     (simp_all add: timers_owned_startPolling)

lemma timers_owned_onTouchTap_send:
  "timers_owned x \<Longrightarrow>
   timers_owned (case sonos x of
                   None \<Rightarrow> onTouchTap_catch a x
                 | Some h \<Rightarrow> suspend (AwaitTouchTap a) (emit [SetMuted h m] x))"
  by (cases "sonos x") simp_all

lemma timers_owned_onTouchTap_then:
  "timers_owned s \<Longrightarrow> timers_owned (onTouchTap_then a ip m s)"
  unfolding onTouchTap_then_def Let_def
  by (rule timers_owned_onTouchTap_send, cases "sonos s")
     (simp_all add: timers_owned_startPolling)

lemma timers_owned_onDialUp: "timers_owned s \<Longrightarrow> timers_owned (onDialUp a st s)"
  by (cases "configured (speakerIp st)")
     (simp_all add: onDialUp_def Let_def timers_owned_onDialUp_then)

lemma timers_owned_onTouchTap: "timers_owned s \<Longrightarrow> timers_owned (onTouchTap a st s)"
  by (cases "configured (speakerIp st)")
     (simp_all add: onTouchTap_def Let_def timers_owned_onTouchTap_then)

lemma timers_owned_onDialUp_settled:
  "timers_owned s \<Longrightarrow> timers_owned (onDialUp_settled a r s)"
  by (cases r) (simp_all add: onDialUp_settled_def)

lemma timers_owned_onTouchTap_settled:
  "timers_owned s \<Longrightarrow> timers_owned (onTouchTap_settled a r s)"
  by (cases r) (simp_all add: onTouchTap_settled_def)

lemma onDidReceiveSettings_eq:
  "onDidReceiveSettings a st s = (if isDial a then s\<lparr>currentSettings := Some st\<rparr> else s)"
  by (simp add: onDidReceiveSettings_def Let_def spread_def)

lemma timers_owned_onDidReceiveSettings:
  "timers_owned s \<Longrightarrow> timers_owned (onDidReceiveSettings a st s)"
  by (simp add: onDidReceiveSettings_eq)

lemma timers_owned_onDidReceiveSettings_settled:
  "timers_owned s \<Longrightarrow> timers_owned (onDidReceiveSettings_settled a st r s)"
  by (cases r) (simp_all add: onDidReceiveSettings_settled_def timers_owned_startPolling)

lemma timers_owned_resume: "timers_owned s \<Longrightarrow> timers_owned (resume p r s)"
  by (cases p)
     (simp_all add: resume_def timers_owned_settled timers_owned_onWillAppear_settled
        timers_owned_volumeChange_unmuted timers_owned_volumeChange_written
        timers_owned_onDialUp_settled timers_owned_onTouchTap_settled
        timers_owned_onDidReceiveSettings_settled)

lemma timers_owned_clearTimeout: "timers_owned s \<Longrightarrow> timers_owned (clearTimeout i s)"
  by (simp add: timers_owned_iff)

lemma timers_owned_fired_poll:
  assumes "timers_owned s" and "t \<in> set (timers s)" and "cb t = PollWake"
  shows "timers_owned ((clearTimeout (tid t) s)\<lparr>pollTimeoutId := None\<rparr>)"
  using assms by (simp add: timers_owned_iff) (metis option.inject)

lemma timers_owned_fire:
  assumes "timers_owned s" and "t \<in> set (timers s)"
  shows "timers_owned (fire (cb t) (clearTimeout (tid t) s))"
proof (cases "cb t")
  case PollWake
  with assms have "timers_owned ((clearTimeout (tid t) s)\<lparr>pollTimeoutId := None\<rparr>)"
    by (intro timers_owned_fired_poll)
  with PollWake show ?thesis
    by (simp add: fire_def Let_def timers_owned_pollWithDelay)
next
  case (VolumeChange a ip v)
  with assms show ?thesis
    by (simp add: fire_def timers_owned_volumeChange timers_owned_clearTimeout)
qed

lemma timers_owned_step: "timers_owned s \<Longrightarrow> timers_owned (step e s)"
proof (cases e)
  case (TimerFires i)
  assume inv: "timers_owned s"
  show ?thesis
  proof (cases "find (\<lambda>t. tid t = i) (timers s)")
    case None
    with TimerFires inv show ?thesis by simp
  next
    case (Some t)
    then have "t \<in> set (timers s)" and "tid t = i"
      by (auto simp: find_Some_iff)
    with inv have "timers_owned (fire (cb t) (clearTimeout i s))"
      using timers_owned_fire by blast
    with TimerFires Some show ?thesis by simp
  qed
next
  case (Settles i r)
  assume "timers_owned s"
  then show ?thesis using Settles by (simp add: timers_owned_resume)
qed (simp_all add: timers_owned_onWillAppear timers_owned_onWillDisappear
       timers_owned_onDialRotate timers_owned_onDialUp timers_owned_onTouchTap
       timers_owned_onDidReceiveSettings)

lemma timers_owned_run: "timers_owned s \<Longrightarrow> timers_owned (run evs s)"
  unfolding run_def by (induction evs arbitrary: s) (simp_all add: timers_owned_step)

lemma timers_owned_init: "timers_owned init"
  by (simp add: timers_owned_def init_def)

section \<open>Concrete states\<close>

text \<open>The definitions a concrete run is evaluated with.\<close>

lemmas eval_defs = run_def init_def emit_def suspend_def setTimeout_def clearTimeout_def
  configured_def spread_def showAlert_def opacity_of_def POLLING_INTERVAL_MS_def
  VOLUME_CHANGE_DEBOUNCE_MS_def stopPolling_def pollWithDelay_finally_def pollWithDelay_catch_def
  pollWithDelay_read_def pollWithDelay_def pollWithDelay_settled_def startPolling_def
  onWillDisappear_def onWillAppear_def onWillAppear_settled_def onDialRotate_def
  volumeChange_catch_def volumeChange_finally_def volumeChange_setVolume_def volumeChange_def
  volumeChange_unmuted_def volumeChange_written_def onDialUp_catch_def onDialUp_then_def
  onDialUp_def onDialUp_settled_def onTouchTap_catch_def onTouchTap_then_def onTouchTap_def
  onTouchTap_settled_def onDidReceiveSettings_def onDidReceiveSettings_settled_def
  fire_def resume_def Let_def theDial_def livingRoom_def kitchen_def unconfigured_def

lemma connected_eq:
  "connected =
     \<lparr>sonos = Some ''192.168.1.10'', lastKnownVolume = 30, isMuted = False,
      pollInterval = Some True, pollTimeoutId = Some 0,
      currentAction = Some theDial, currentSettings = Some livingRoom,
      volumeChangeTimeout = None, isRotating = False,
      timers = [\<lparr>tid = 0, delay = 3000, cb = PollWake\<rparr>], nextTimer = 1,
      awaiting = [],
      trace =
        [SetFeedback theDial 50 Full,
         Log Info ''WillAppear'' ''Connecting to Sonos speaker:'',
         NewSonos ''192.168.1.10'', GetVolume ''192.168.1.10'', GetMuted ''192.168.1.10'',
         SetFeedback theDial 30 Full,
         SetSettings theDial
           \<lparr>svalue = Some 30, speakerIp = Some ''192.168.1.10'', volumeStep = Some 5\<rparr>,
         Log Debug ''Polling'' ''Starting polling'',
         GetVolume ''192.168.1.10'', GetMuted ''192.168.1.10'']\<rparr>"
  by (simp add: connected_def eval_defs)

lemma rotating_eq:
  "rotating =
     \<lparr>sonos = Some ''192.168.1.10'', lastKnownVolume = 65, isMuted = False,
      pollInterval = Some True, pollTimeoutId = None,
      currentAction = Some theDial, currentSettings = Some livingRoom,
      volumeChangeTimeout = Some 1, isRotating = True,
      timers = [\<lparr>tid = 1, delay = 500, cb = VolumeChange theDial ''192.168.1.10'' 65\<rparr>],
      nextTimer = 2, awaiting = [AwaitPollRead],
      trace = trace connected @
        [GetVolume ''192.168.1.10'', GetMuted ''192.168.1.10'',
         SetFeedback theDial 65 Full,
         SetSettings theDial
           \<lparr>svalue = Some 65, speakerIp = Some ''192.168.1.10'', volumeStep = Some 5\<rparr>]\<rparr>"
  by (simp add: rotating_def connected_eq eval_defs)

lemma calls_append [simp]: "calls (xs @ ys) = calls xs @ calls ys"
  by (simp add: calls_def)

lemma calls_simps [simp]:
  "calls [] = []"
  "calls (Log l sc m # es) = calls es"
  "calls (SetFeedback a v op # es) = SetFeedback a v op # calls es"
  "calls (SetSettings a st # es) = SetSettings a st # calls es"
  "calls (ShowAlert a # es) = ShowAlert a # calls es"
  "calls (NewSonos ip # es) = NewSonos ip # calls es"
  "calls (GetVolume h # es) = GetVolume h # calls es"
  "calls (GetMuted h # es) = GetMuted h # calls es"
  "calls (SetMuted h b # es) = SetMuted h b # calls es"
  "calls (SetVolume h v # es) = SetVolume h v # calls es"
  by (simp_all add: calls_def is_log_def)

section \<open>The poller does not depend on the log\<close>

lemma observe_eqD:
  assumes "observe s = observe s'"
  shows "sonos s' = sonos s" "lastKnownVolume s' = lastKnownVolume s" "isMuted s' = isMuted s"
    "pollInterval s' = pollInterval s" "pollTimeoutId s' = pollTimeoutId s"
    "currentAction s' = currentAction s" "currentSettings s' = currentSettings s"
    "volumeChangeTimeout s' = volumeChangeTimeout s" "isRotating s' = isRotating s"
    "timers s' = timers s" "nextTimer s' = nextTimer s"
proof -
  have "sonos (observe s') = sonos (observe s)"
    "lastKnownVolume (observe s') = lastKnownVolume (observe s)"
    "isMuted (observe s') = isMuted (observe s)"
    "pollInterval (observe s') = pollInterval (observe s)"
    "pollTimeoutId (observe s') = pollTimeoutId (observe s)"
    "currentAction (observe s') = currentAction (observe s)"
    "currentSettings (observe s') = currentSettings (observe s)"
    "volumeChangeTimeout (observe s') = volumeChangeTimeout (observe s)"
    "isRotating (observe s') = isRotating (observe s)"
    "timers (observe s') = timers (observe s)"
    "nextTimer (observe s') = nextTimer (observe s)"
    by (simp_all only: assms)
  then show "sonos s' = sonos s" "lastKnownVolume s' = lastKnownVolume s" "isMuted s' = isMuted s"
    "pollInterval s' = pollInterval s" "pollTimeoutId s' = pollTimeoutId s"
    "currentAction s' = currentAction s" "currentSettings s' = currentSettings s"
    "volumeChangeTimeout s' = volumeChangeTimeout s" "isRotating s' = isRotating s"
    "timers s' = timers s" "nextTimer s' = nextTimer s"
    by (simp_all add: observe_def)
qed

lemma observe_push:
  "observe (emit es s) = emit (calls es) (observe s)"
  "observe (suspend p s) = suspend (unscoped p) (observe s)"
  "observe (setTimeout c d s) = setTimeout c d (observe s)"
  "observe (clearTimeout i s) = clearTimeout i (observe s)"
  "observe (showAlert a m s) = emit [ShowAlert a] (observe s)"
  "observe (s\<lparr>sonos := x1\<rparr>) = (observe s)\<lparr>sonos := x1\<rparr>"
  "observe (s\<lparr>lastKnownVolume := x2\<rparr>) = (observe s)\<lparr>lastKnownVolume := x2\<rparr>"
  "observe (s\<lparr>isMuted := x3\<rparr>) = (observe s)\<lparr>isMuted := x3\<rparr>"
  "observe (s\<lparr>pollInterval := x4\<rparr>) = (observe s)\<lparr>pollInterval := x4\<rparr>"
  "observe (s\<lparr>pollTimeoutId := x5\<rparr>) = (observe s)\<lparr>pollTimeoutId := x5\<rparr>"
  "observe (s\<lparr>currentAction := x6\<rparr>) = (observe s)\<lparr>currentAction := x6\<rparr>"
  "observe (s\<lparr>currentSettings := x7\<rparr>) = (observe s)\<lparr>currentSettings := x7\<rparr>"
  "observe (s\<lparr>isRotating := x8\<rparr>) = (observe s)\<lparr>isRotating := x8\<rparr>"
  by (simp_all add: observe_def emit_def suspend_def setTimeout_def clearTimeout_def showAlert_def)

lemma same_prims:
  "observe s = observe s' \<Longrightarrow> calls es = calls es' \<Longrightarrow> observe (emit es s) = observe (emit es' s')"
  "observe s = observe s' \<Longrightarrow> unscoped p = unscoped p' \<Longrightarrow>
     observe (suspend p s) = observe (suspend p' s')"
  "observe s = observe s' \<Longrightarrow> observe (setTimeout c d s) = observe (setTimeout c d s')"
  "observe s = observe s' \<Longrightarrow> observe (clearTimeout i s) = observe (clearTimeout i s')"
  "observe s = observe s' \<Longrightarrow> observe (showAlert a m s) = observe (showAlert a m s')"
  "observe s = observe s' \<Longrightarrow> observe (s\<lparr>sonos := x1\<rparr>) = observe (s'\<lparr>sonos := x1\<rparr>)"
  "observe s = observe s' \<Longrightarrow> observe (s\<lparr>isMuted := x3\<rparr>) = observe (s'\<lparr>isMuted := x3\<rparr>)"
  "observe s = observe s' \<Longrightarrow> observe (s\<lparr>pollInterval := x4\<rparr>) = observe (s'\<lparr>pollInterval := x4\<rparr>)"
  "observe s = observe s' \<Longrightarrow> observe (s\<lparr>pollTimeoutId := x5\<rparr>) = observe (s'\<lparr>pollTimeoutId := x5\<rparr>)"
  "observe s = observe s' \<Longrightarrow> observe (s\<lparr>currentAction := x6\<rparr>) = observe (s'\<lparr>currentAction := x6\<rparr>)"
  "observe s = observe s' \<Longrightarrow>
     observe (s\<lparr>currentAction := x6, currentSettings := x7\<rparr>) =
     observe (s'\<lparr>currentAction := x6, currentSettings := x7\<rparr>)"
  by (simp_all add: observe_push)

lemma same_stopPolling:
  assumes "observe s = observe s'"
  shows "observe (stopPolling s) = observe (stopPolling s')"
  using assms
  by (cases "pollInterval s"; cases "pollTimeoutId s")
     (simp_all add: stopPolling_def observe_eqD [OF assms] observe_push)

lemma same_finally:
  assumes "observe s = observe s'"
  shows "observe (pollWithDelay_finally s) = observe (pollWithDelay_finally s')"
  using assms
  by (cases "pollTimeoutId s")
     (simp_all add: pollWithDelay_finally_def observe_eqD [OF assms] observe_push)

lemma same_read:
  assumes "observe s = observe s'"
  shows "observe (pollWithDelay_read h s) = observe (pollWithDelay_read h s')"
  using assms by (simp add: pollWithDelay_read_def observe_push)

lemma same_pollWithDelay:
  assumes "observe s = observe s'"
  shows "observe (pollWithDelay s) = observe (pollWithDelay s')"
proof -
  note F = observe_eqD [OF assms]
  show ?thesis
    unfolding pollWithDelay_def F
    by (cases "sonos s"; cases "configured (speakerIp (spread (currentSettings s)))")
       (auto intro!: same_finally same_stopPolling same_read same_prims assms)
qed

lemma same_startPolling:
  assumes "observe s = observe s'"
  shows "observe (startPolling a s) = observe (startPolling a s')"
proof -
  note F = observe_eqD [OF assms]
  show ?thesis
    unfolding startPolling_def Let_def
    by (cases "pollInterval s"; cases "pollTimeoutId s"; cases "currentSettings s")
       (auto simp: F intro!: same_pollWithDelay same_prims assms)
qed

lemma same_catch:
  assumes "observe x = observe y"
  shows "observe (onDialUp_catch a x) = observe (onTouchTap_catch a y)"
  using assms by (simp add: onDialUp_catch_def onTouchTap_catch_def observe_push)

lemma same_send:
  assumes "observe x = observe y"
  shows "observe (case sonos x of
                    None \<Rightarrow> onDialUp_catch a x
                  | Some h \<Rightarrow> suspend (AwaitDialUp a) (emit [SetMuted h m] x)) =
         observe (case sonos y of
                    None \<Rightarrow> onTouchTap_catch a y
                  | Some h \<Rightarrow> suspend (AwaitTouchTap a) (emit [SetMuted h m] y))"
  using assms
  by (cases "sonos x")
     (simp_all add: observe_eqD [OF assms] same_catch observe_push unscoped_def)

lemma same_then: "observe (onDialUp_then a ip m s) = observe (onTouchTap_then a ip m s)"
  unfolding onDialUp_then_def onTouchTap_then_def Let_def
  by (rule same_send, cases "sonos s")
     (auto intro!: same_startPolling simp: observe_push)

section \<open>Handles after a failure\<close>

lemma rebuiltI:
  assumes "trace s' = trace s @ es"
    and "sonos s' = None \<or> (\<exists>h. sonos s' = Some h \<and> NewSonos h \<in> set es)"
  shows "rebuilt s s'"
  using assms by (auto simp: rebuilt_def)

lemma rebuiltD:
  assumes "rebuilt s s'"
  shows "\<exists>es. trace s' = trace s @ es \<and>
              (sonos s' = None \<or> (\<exists>h. sonos s' = Some h \<and> NewSonos h \<in> set es))"
proof -
  let ?es = "drop (length (trace s)) (trace s')"
  from assms have "trace s' = trace s @ ?es"
    by (metis append_take_drop_id rebuilt_def)
  moreover from assms have "sonos s' = None \<or> (\<exists>h. sonos s' = Some h \<and> NewSonos h \<in> set ?es)"
    by (cases "sonos s'") (simp_all add: rebuilt_def)
  ultimately show ?thesis by blast
qed

lemma rebuilt_after:
  assumes "trace s1 = trace s @ es1" and "rebuilt s1 s2"
  shows "rebuilt s s2"
proof -
  from rebuiltD [OF assms(2)] obtain es where
    "trace s2 = trace s1 @ es"
    "sonos s2 = None \<or> (\<exists>h. sonos s2 = Some h \<and> NewSonos h \<in> set es)" by blast
  with assms(1) show ?thesis
    by (intro rebuiltI [where es = "es1 @ es"]) auto
qed

lemma rebuilt_pollWithDelay:
  assumes "sonos s = None"
  shows "rebuilt s (pollWithDelay s)"
proof (cases "pollInterval s = Some True \<and> currentAction s \<noteq> None \<and> currentSettings s \<noteq> None")
  case False
  then show ?thesis using assms
    by (auto simp: pollWithDelay_def intro!: rebuiltI)
next
  case True
  show ?thesis
  proof (cases "configured (speakerIp (spread (currentSettings s)))")
    case None
    with True assms show ?thesis
      by (auto simp: pollWithDelay_def intro!: rebuiltI)
  next
    case (Some ip)
    with True assms show ?thesis
      by (auto simp: pollWithDelay_def intro!: rebuiltI)
  qed
qed

lemma rebuilt_pollWithDelay_after:
  assumes "sonos s1 = None" and "trace s1 = trace s @ es1"
  shows "rebuilt s (pollWithDelay s1)"
  using assms(2) rebuilt_pollWithDelay [OF assms(1)] by (rule rebuilt_after)

lemma rebuilt_startPolling:
  assumes "sonos s = None"
  shows "rebuilt s (startPolling a s)"
proof (cases "pollInterval s = Some True")
  case True
  with assms show ?thesis by (auto simp: startPolling_def intro!: rebuiltI)
next
  case False
  show ?thesis
  proof (cases "currentSettings s")
    case None
    with False assms show ?thesis
      by (cases "pollTimeoutId s") (auto simp: startPolling_def Let_def intro!: rebuiltI)
  next
    case (Some st)
    with False assms show ?thesis
      by (cases "pollInterval s"; cases "pollTimeoutId s")
         (auto simp: startPolling_def Let_def
               intro!: rebuilt_pollWithDelay_after
                         [where ?es1.0 = "[Log Debug ''Polling'' ''Starting polling'']"])
  qed
qed

lemma pollWithDelay_keeps_handle:
  assumes "sonos s = Some h"
  shows "sonos (pollWithDelay s) = Some h"
  using assms by (simp add: pollWithDelay_def)

lemma pollWithDelay_extends: "\<exists>es. trace (pollWithDelay s) = trace s @ es"
  by (cases "sonos s"; cases "configured (speakerIp (spread (currentSettings s)))")
     (simp_all add: pollWithDelay_def)

lemma startPolling_keeps_handle:
  assumes "sonos s = Some h"
  shows "sonos (startPolling a s) = Some h"
  using assms
  by (cases "pollTimeoutId s")
     (simp_all add: startPolling_def Let_def pollWithDelay_keeps_handle)

lemma startPolling_extends: "\<exists>es. trace (startPolling a s) = trace s @ es"
proof (cases "pollInterval s = Some True \<or> currentSettings s = None")
  case True
  then show ?thesis
    by (cases "pollTimeoutId s") (auto simp: startPolling_def Let_def)
next
  case False
  let ?s2 = "case pollTimeoutId s of
               Some t \<Rightarrow> (clearTimeout t s)\<lparr>pollTimeoutId := None\<rparr> | None \<Rightarrow> s"
  let ?s4 = "(emit [Log Debug ''Polling'' ''Starting polling'']
                (?s2\<lparr>pollInterval := None, currentAction := Some a\<rparr>))\<lparr>pollInterval := Some True\<rparr>"
  obtain es where es: "trace (pollWithDelay ?s4) = trace ?s4 @ es"
    using pollWithDelay_extends by blast
  have tr: "trace ?s4 = trace s @ [Log Debug ''Polling'' ''Starting polling'']"
    by (cases "pollTimeoutId s") simp_all
  have "startPolling a s = pollWithDelay ?s4"
    using False
    by (cases "pollInterval s"; cases "pollTimeoutId s")
       (auto simp: startPolling_def Let_def clearTimeout_def emit_def)
  then show ?thesis using es tr by simp
qed

lemma rebuilt_volumeChange_finally_catch:
  "rebuilt s (volumeChange_finally a (volumeChange_catch a s))"
proof -
  let ?s1 = "(volumeChange_catch a s)\<lparr>isRotating := False\<rparr>"
  have "sonos ?s1 = None" by (simp add: volumeChange_catch_def)
  then have "rebuilt ?s1 (startPolling a ?s1)" by (rule rebuilt_startPolling)
  moreover have "trace ?s1 = trace s @ [Log Error ''DialRotate'' ''Failed to update volume:'',
      ShowAlert a, Log Error ''SonosVolumeDial'' ''Failed to update volume'']"
    by (simp add: volumeChange_catch_def)
  ultimately show ?thesis unfolding volumeChange_finally_def by (rule rebuilt_after [rotated])
qed

lemma volumeChange_finally_catch_active:
  assumes "pollInterval s = Some True"
  shows "sonos (volumeChange_finally a (volumeChange_catch a s)) = None"
  using assms by (simp add: volumeChange_finally_def volumeChange_catch_def startPolling_def)

lemma onDialUp_reconnects:
  assumes "sonos s = None" and "configured (speakerIp st) = Some ip"
  shows "sonos (onDialUp a st s) = Some ip \<and> rebuilt s (onDialUp a st s)
         \<and> last (trace (onDialUp a st s)) = SetMuted ip (\<not> isMuted s)"
proof -
  let ?s1 = "emit [SetFeedback a (lastKnownVolume s) (opacity_of (\<not> isMuted s))]
               (s\<lparr>isMuted := \<not> isMuted s\<rparr>)"
  let ?s2 = "(emit [Log Info ''DialUp'' ''Reconnecting to speaker:'', NewSonos ip] ?s1)
               \<lparr>sonos := Some ip\<rparr>"
  let ?x = "if pollInterval ?s2 = None then startPolling a ?s2 else ?s2"
  have h: "sonos ?x = Some ip" by (simp add: startPolling_keeps_handle)
  obtain es where es: "trace ?x = trace ?s2 @ es"
    using startPolling_extends [of a ?s2] by (cases "pollInterval ?s2 = None") auto
  have eq: "onDialUp a st s = suspend (AwaitDialUp a) (emit [SetMuted ip (\<not> isMuted s)] ?x)"
    using assms h by (simp add: onDialUp_def onDialUp_then_def Let_def)
  have tr: "trace (onDialUp a st s) =
      trace s @ ([SetFeedback a (lastKnownVolume s) (opacity_of (\<not> isMuted s)),
                  Log Info ''DialUp'' ''Reconnecting to speaker:'', NewSonos ip] @ es @
                 [SetMuted ip (\<not> isMuted s)])"
    unfolding eq using es by simp
  have "sonos (onDialUp a st s) = Some ip" unfolding eq using h by simp
  moreover from this tr have "rebuilt s (onDialUp a st s)"
    by (intro rebuiltI [OF tr]) simp
  moreover have "last (trace (onDialUp a st s)) = SetMuted ip (\<not> isMuted s)"
    unfolding tr by simp
  ultimately show ?thesis by blast
qed

lemma onTouchTap_reconnects:
  assumes "sonos s = None" and "configured (speakerIp st) = Some ip"
  shows "sonos (onTouchTap a st s) = Some ip \<and> rebuilt s (onTouchTap a st s)
         \<and> last (trace (onTouchTap a st s)) = SetMuted ip (\<not> isMuted s)"
proof -
  let ?s1 = "emit [SetFeedback a (lastKnownVolume s) (opacity_of (\<not> isMuted s))]
               (s\<lparr>isMuted := \<not> isMuted s\<rparr>)"
  let ?s2 = "(emit [Log Info ''TouchTap'' ''Reconnecting to speaker:'', NewSonos ip] ?s1)
               \<lparr>sonos := Some ip\<rparr>"
  let ?x = "if pollInterval ?s2 = None then startPolling a ?s2 else ?s2"
  have h: "sonos ?x = Some ip" by (simp add: startPolling_keeps_handle)
  obtain es where es: "trace ?x = trace ?s2 @ es"
    using startPolling_extends [of a ?s2] by (cases "pollInterval ?s2 = None") auto
  have eq: "onTouchTap a st s = suspend (AwaitTouchTap a) (emit [SetMuted ip (\<not> isMuted s)] ?x)"
    using assms h by (simp add: onTouchTap_def onTouchTap_then_def Let_def)
  have tr: "trace (onTouchTap a st s) =
      trace s @ ([SetFeedback a (lastKnownVolume s) (opacity_of (\<not> isMuted s)),
                  Log Info ''TouchTap'' ''Reconnecting to speaker:'', NewSonos ip] @ es @
                 [SetMuted ip (\<not> isMuted s)])"
    unfolding eq using es by simp
  have "sonos (onTouchTap a st s) = Some ip" unfolding eq using h by simp
  moreover from this tr have "rebuilt s (onTouchTap a st s)"
    by (intro rebuiltI [OF tr]) simp
  moreover have "last (trace (onTouchTap a st s)) = SetMuted ip (\<not> isMuted s)"
    unfolding tr by simp
  ultimately show ?thesis by blast
qed

lemma writing_eq:
  "writing =
     \<lparr>sonos = Some ''192.168.1.10'', lastKnownVolume = 65, isMuted = False,
      pollInterval = Some True, pollTimeoutId = None,
      currentAction = Some theDial, currentSettings = Some livingRoom,
      volumeChangeTimeout = Some 1, isRotating = True,
      timers = [], nextTimer = 2,
      awaiting = [AwaitPollRead, AwaitSetVolume theDial ''192.168.1.10'' 65],
      trace = trace rotating @ [SetVolume ''192.168.1.10'' 65]\<rparr>"
  by (simp add: writing_def rotating_eq run_def fire_def volumeChange_def
        volumeChange_setVolume_def clearTimeout_def emit_def suspend_def)

lemma failed_eq:
  "failed =
     \<lparr>sonos = None, lastKnownVolume = 65, isMuted = False,
      pollInterval = Some True, pollTimeoutId = None,
      currentAction = Some theDial, currentSettings = Some livingRoom,
      volumeChangeTimeout = Some 1, isRotating = False,
      timers = [], nextTimer = 2,
      awaiting = [AwaitPollRead],
      trace = trace writing @
        [Log Error ''DialRotate'' ''Failed to update volume:'', ShowAlert theDial,
         Log Error ''SonosVolumeDial'' ''Failed to update volume'',
         Log Debug ''Polling'' ''Polling already active, skipping'']\<rparr>"
  by (simp add: failed_def writing_eq run_def resume_def volumeChange_written_def
        volumeChange_catch_def volumeChange_finally_def startPolling_def showAlert_def emit_def)

lemma retrying_eq:
  "retrying =
     \<lparr>sonos = None, lastKnownVolume = 55, isMuted = False,
      pollInterval = Some True, pollTimeoutId = None,
      currentAction = Some theDial, currentSettings = Some livingRoom,
      volumeChangeTimeout = Some 2, isRotating = True,
      timers = [\<lparr>tid = 2, delay = 500, cb = VolumeChange theDial ''192.168.1.10'' 55\<rparr>],
      nextTimer = 3,
      awaiting = [AwaitPollRead],
      trace = trace failed @
        [SetFeedback theDial 55 Full,
         SetSettings theDial
           \<lparr>svalue = Some 55, speakerIp = Some ''192.168.1.10'', volumeStep = Some 5\<rparr>]\<rparr>"
  by (simp add: retrying_def failed_eq run_def onDialRotate_def Let_def livingRoom_def
        configured_def spread_def opacity_of_def setTimeout_def clearTimeout_def emit_def
        VOLUME_CHANGE_DEBOUNCE_MS_def)

section \<open>Timer handles are fresh\<close>

lemma timers_fresh_iff: "timers_fresh s = (\<forall>t\<in>set (timers s). tid t < nextTimer s)"
  by (simp add: timers_fresh_def list_all_iff)

lemma timers_fresh_prims [simp]:
  "timers_fresh (emit es s) = timers_fresh s"
  "timers_fresh (suspend p s) = timers_fresh s"
  "timers_fresh (showAlert a m s) = timers_fresh s"
  "timers_fresh (pollWithDelay_catch s) = timers_fresh s"
  "timers_fresh (pollWithDelay_read h s) = timers_fresh s"
  "timers_fresh (s\<lparr>sonos := x1\<rparr>) = timers_fresh s"
  "timers_fresh (s\<lparr>lastKnownVolume := x2\<rparr>) = timers_fresh s"
  "timers_fresh (s\<lparr>isMuted := x3\<rparr>) = timers_fresh s"
  "timers_fresh (s\<lparr>pollInterval := x4\<rparr>) = timers_fresh s"
  "timers_fresh (s\<lparr>pollTimeoutId := y1\<rparr>) = timers_fresh s"
  "timers_fresh (s\<lparr>currentAction := x5\<rparr>) = timers_fresh s"
  "timers_fresh (s\<lparr>currentSettings := x6\<rparr>) = timers_fresh s"
  "timers_fresh (s\<lparr>volumeChangeTimeout := y2\<rparr>) = timers_fresh s"
  "timers_fresh (s\<lparr>isRotating := x7\<rparr>) = timers_fresh s"
  "timers_fresh (s\<lparr>awaiting := x8\<rparr>) = timers_fresh s"
  "timers_fresh (s\<lparr>trace := x9\<rparr>) = timers_fresh s"
  by (simp_all add: timers_fresh_iff)

lemma timers_fresh_clearTimeout: "timers_fresh s \<Longrightarrow> timers_fresh (clearTimeout i s)"
  by (simp add: timers_fresh_iff)

lemma timers_fresh_setTimeout: "timers_fresh s \<Longrightarrow> timers_fresh (setTimeout c d s)"
  by (simp add: timers_fresh_iff) (meson less_Suc_eq)

lemma timers_fresh_stopPolling: "timers_fresh s \<Longrightarrow> timers_fresh (stopPolling s)"
  by (cases "pollTimeoutId s") (simp_all add: timers_fresh_iff)

lemma timers_fresh_finally: "timers_fresh s \<Longrightarrow> timers_fresh (pollWithDelay_finally s)"
  by (cases "pollTimeoutId s")
     (simp_all add: pollWithDelay_finally_def timers_fresh_setTimeout timers_fresh_clearTimeout)

lemma timers_fresh_pollWithDelay: "timers_fresh s \<Longrightarrow> timers_fresh (pollWithDelay s)"
  by (simp add: pollWithDelay_def timers_fresh_stopPolling timers_fresh_finally split: option.splits)

lemma timers_fresh_settled: "timers_fresh s \<Longrightarrow> timers_fresh (pollWithDelay_settled r s)"
  by (simp add: pollWithDelay_settled_def Let_def timers_fresh_finally split: option.splits reply.splits)

lemma timers_fresh_startPolling: "timers_fresh s \<Longrightarrow> timers_fresh (startPolling a s)"
  by (cases "pollTimeoutId s")
     (simp_all add: startPolling_def Let_def timers_fresh_pollWithDelay timers_fresh_clearTimeout)

lemma timers_fresh_onWillDisappear: "timers_fresh s \<Longrightarrow> timers_fresh (onWillDisappear s)"
  by (cases "volumeChangeTimeout s")
     (simp_all add: onWillDisappear_def timers_fresh_stopPolling timers_fresh_clearTimeout)

lemma timers_fresh_onWillAppear: "timers_fresh s \<Longrightarrow> timers_fresh (onWillAppear a st s)"
  by (simp add: onWillAppear_def Let_def split: option.splits)

lemma timers_fresh_onWillAppear_settled:
  "timers_fresh s \<Longrightarrow> timers_fresh (onWillAppear_settled a st r s)"
  by (cases r) (simp_all add: onWillAppear_settled_def Let_def timers_fresh_startPolling)

lemma timers_fresh_onDialRotate: "timers_fresh s \<Longrightarrow> timers_fresh (onDialRotate a st ticks s)"
  by (cases "configured (speakerIp st)"; cases "volumeChangeTimeout s")
     ((simp add: timers_fresh_iff onDialRotate_fields, (meson less_Suc_eq)?)+)

lemma timers_fresh_volumeChange_catch [simp]:
  "timers_fresh (volumeChange_catch a s) = timers_fresh s"
  by (simp add: volumeChange_catch_def)

lemma timers_fresh_volumeChange_finally:
  "timers_fresh s \<Longrightarrow> timers_fresh (volumeChange_finally a s)"
  by (simp add: volumeChange_finally_def timers_fresh_startPolling)

lemma timers_fresh_volumeChange_setVolume:
  "timers_fresh s \<Longrightarrow> timers_fresh (volumeChange_setVolume a ip v s)"
  by (cases "sonos s") (simp_all add: volumeChange_setVolume_def timers_fresh_volumeChange_finally)

lemma timers_fresh_volumeChange:
  "timers_fresh s \<Longrightarrow> timers_fresh (volumeChange a ip v s)"
  by (cases "sonos s"; cases "isMuted s")
     (simp_all add: volumeChange_def Let_def timers_fresh_volumeChange_setVolume)

lemma timers_fresh_volumeChange_unmuted:
  "timers_fresh s \<Longrightarrow> timers_fresh (volumeChange_unmuted a ip v r s)"
  by (cases r)
     (simp_all add: volumeChange_unmuted_def timers_fresh_volumeChange_setVolume
        timers_fresh_volumeChange_finally)

lemma timers_fresh_volumeChange_written:
  "timers_fresh s \<Longrightarrow> timers_fresh (volumeChange_written a r s)"
  by (cases r) (simp_all add: volumeChange_written_def timers_fresh_volumeChange_finally)

lemma timers_fresh_onDialUp_catch [simp]:
  "timers_fresh (onDialUp_catch a s) = timers_fresh s"
  by (simp add: onDialUp_catch_def)

lemma timers_fresh_onTouchTap_catch [simp]:
  "timers_fresh (onTouchTap_catch a s) = timers_fresh s"
  by (simp add: onTouchTap_catch_def)

lemma timers_fresh_onDialUp_send:
  "timers_fresh x \<Longrightarrow>
   timers_fresh (case sonos x of
                   None \<Rightarrow> onDialUp_catch a x
                 | Some h \<Rightarrow> suspend (AwaitDialUp a) (emit [SetMuted h m] x))"
  by (cases "sonos x") simp_all

lemma timers_fresh_onDialUp_then:
  "timers_fresh s \<Longrightarrow> timers_fresh (onDialUp_then a ip m s)"
  unfolding onDialUp_then_def Let_def
  by (rule timers_fresh_onDialUp_send, cases "sonos s")
     (simp_all add: timers_fresh_startPolling)

lemma timers_fresh_onTouchTap_send:
  "timers_fresh x \<Longrightarrow>
   timers_fresh (case sonos x of
                   None \<Rightarrow> onTouchTap_catch a x
                 | Some h \<Rightarrow> suspend (AwaitTouchTap a) (emit [SetMuted h m] x))"
  by (cases "sonos x") simp_all

lemma timers_fresh_onTouchTap_then:
  "timers_fresh s \<Longrightarrow> timers_fresh (onTouchTap_then a ip m s)"
  unfolding onTouchTap_then_def Let_def
  by (rule timers_fresh_onTouchTap_send, cases "sonos s")
     (simp_all add: timers_fresh_startPolling)

lemma timers_fresh_onDialUp: "timers_fresh s \<Longrightarrow> timers_fresh (onDialUp a st s)"
  by (cases "configured (speakerIp st)")
     (simp_all add: onDialUp_def Let_def timers_fresh_onDialUp_then)

lemma timers_fresh_onTouchTap: "timers_fresh s \<Longrightarrow> timers_fresh (onTouchTap a st s)"
  by (cases "configured (speakerIp st)")
     (simp_all add: onTouchTap_def Let_def timers_fresh_onTouchTap_then)

lemma timers_fresh_resume: "timers_fresh s \<Longrightarrow> timers_fresh (resume p r s)"
proof (cases p)
  case (AwaitDialUp a)
  assume "timers_fresh s"
  with AwaitDialUp show ?thesis by (cases r) (simp_all add: resume_def onDialUp_settled_def)
next
  case (AwaitTouchTap a)
  assume "timers_fresh s"
  with AwaitTouchTap show ?thesis by (cases r) (simp_all add: resume_def onTouchTap_settled_def)
next
  case (AwaitSettingsRead a st)
  assume "timers_fresh s"
  with AwaitSettingsRead show ?thesis
    by (cases r)
       (simp_all add: resume_def onDidReceiveSettings_settled_def timers_fresh_startPolling)
qed (simp_all add: resume_def timers_fresh_settled timers_fresh_onWillAppear_settled
       timers_fresh_volumeChange_unmuted timers_fresh_volumeChange_written)

lemma timers_fresh_fire: "timers_fresh s \<Longrightarrow> timers_fresh (fire c s)"
  by (cases c) (simp_all add: fire_def Let_def timers_fresh_pollWithDelay timers_fresh_volumeChange)

lemma timers_fresh_step: "timers_fresh s \<Longrightarrow> timers_fresh (step e s)"
  by (cases e)
     (simp_all add: timers_fresh_onWillAppear timers_fresh_onWillDisappear
        timers_fresh_onDialRotate timers_fresh_onDialUp timers_fresh_onTouchTap
        onDidReceiveSettings_eq timers_fresh_resume timers_fresh_fire
        timers_fresh_clearTimeout split: option.splits)

lemma timers_fresh_run: "timers_fresh s \<Longrightarrow> timers_fresh (run evs s)"
  unfolding run_def by (induction evs arbitrary: s) (simp_all add: timers_fresh_step)

lemma timers_fresh_init: "timers_fresh init"
  by (simp add: timers_fresh_def init_def)

section \<open>Runs and teardown\<close>

lemma setVolume_calls_append [simp]:
  "setVolume_calls (xs @ ys) = setVolume_calls xs @ setVolume_calls ys"
  by (induction xs rule: setVolume_calls.induct) simp_all

lemma run_append: "run (xs @ ys) s = run ys (run xs s)"
  by (simp add: run_def)

lemma run_Cons: "run (e # es) s = run es (step e s)"
  by (simp add: run_def)

lemma run_Nil [simp]: "run [] s = s"
  by (simp add: run_def)

lemma reachable_owned: "timers_owned (run evs init)"
  by (intro timers_owned_run timers_owned_init)

lemma reachable_fresh: "timers_fresh (run evs init)"
  by (intro timers_fresh_run timers_fresh_init)

lemma onWillDisappear_fields:
  "sonos (onWillDisappear s) = sonos s"
  "lastKnownVolume (onWillDisappear s) = lastKnownVolume s"
  "isMuted (onWillDisappear s) = isMuted s"
  "pollInterval (onWillDisappear s) = None"
  "pollTimeoutId (onWillDisappear s) = None"
  "currentAction (onWillDisappear s) = None"
  "currentSettings (onWillDisappear s) = None"
  "volumeChangeTimeout (onWillDisappear s) = None"
  "isRotating (onWillDisappear s) = isRotating s"
  "nextTimer (onWillDisappear s) = nextTimer s"
  "awaiting (onWillDisappear s) = awaiting s"
  "trace (onWillDisappear s) =
     trace s @ (if pollInterval s = None then []
                else [Log Debug ''SonosVolumeDial'' ''Stopping polling''])"
  "timers (onWillDisappear s) =
     filter (\<lambda>t. Some (tid t) \<noteq> pollTimeoutId s \<and> Some (tid t) \<noteq> volumeChangeTimeout s)
       (timers s)"
  by (cases "volumeChangeTimeout s"; cases "pollTimeoutId s";
      simp_all add: onWillDisappear_def conj_commute)+

lemma onWillDisappear_no_timers:
  assumes "timers_owned s"
  shows "timers (onWillDisappear s) = []"
proof -
  have "\<forall>t\<in>set (timers s).
          \<not> (Some (tid t) \<noteq> pollTimeoutId s \<and> Some (tid t) \<noteq> volumeChangeTimeout s)"
    using assms unfolding timers_owned_iff by metis
  then show ?thesis by (simp add: onWillDisappear_fields filter_empty_conv)
qed

lemma no_timers_no_fire:
  assumes "timers s = []"
  shows "run (map TimerFires ids) s = s"
  using assms by (induction ids) (simp_all add: run_Cons)

lemma rotating_run:
  "rotating = run [WillAppear theDial livingRoom, Settles 0 (Resolved 30 False),
                   Settles 0 (Resolved 30 False), TimerFires 0,
                   DialRotate theDial livingRoom 3] init"
  by (simp add: rotating_def connected_def run_def)

section \<open>The debounced write\<close>

lemma find_app:
  "find P (xs @ ys) = (case find P xs of None \<Rightarrow> find P ys | Some x \<Rightarrow> Some x)"
  by (induction xs) simp_all

lemma step_Settles_last:
  assumes "awaiting y = aw @ [p]"
  shows "step (Settles (length aw) r) y = resume p r (y\<lparr>awaiting := aw\<rparr>)"
  using assms by simp

lemma setVolume_calls_stopPolling [simp]:
  "setVolume_calls (trace (stopPolling s)) = setVolume_calls (trace s)"
  by simp

lemma setVolume_calls_pollWithDelay [simp]:
  "setVolume_calls (trace (pollWithDelay s)) = setVolume_calls (trace s)"
  by (cases "sonos s"; cases "configured (speakerIp (spread (currentSettings s)))")
     (simp_all add: pollWithDelay_def)

lemma setVolume_calls_startPolling [simp]:
  "setVolume_calls (trace (startPolling a s)) = setVolume_calls (trace s)"
  by (cases "pollTimeoutId s") (simp_all add: startPolling_def Let_def)

lemma setVolume_calls_finally_catch [simp]:
  "setVolume_calls (trace (volumeChange_finally a (volumeChange_catch a s))) =
   setVolume_calls (trace s)"
  by (simp add: volumeChange_finally_def volumeChange_catch_def)

lemma setVolume_calls_written [simp]:
  "setVolume_calls (trace (volumeChange_written a r s)) = setVolume_calls (trace s)"
  by (cases r) (simp_all add: volumeChange_written_def volumeChange_finally_def volumeChange_catch_def)

lemma volumeChange_not_muted:
  assumes "\<not> isMuted s"
  shows "awaiting (volumeChange a ip v s) = awaiting s @ [AwaitSetVolume a ip v]"
    and "setVolume_calls (trace (volumeChange a ip v s)) = setVolume_calls (trace s) @ [v]"
    and "isMuted (volumeChange a ip v s) = False"
  using assms
  by (cases "sonos s"; simp add: volumeChange_def volumeChange_setVolume_def)+

lemma volumeChange_muted:
  assumes "isMuted s"
  shows "awaiting (volumeChange a ip v s) = awaiting s @ [AwaitUnmute a ip v]"
    and "trace (volumeChange a ip v s) =
         trace s @ (case sonos s of
                      None \<Rightarrow> [Log Info ''DialRotate'' ''Reconnecting to speaker:'', NewSonos ip,
                                SetMuted ip False]
                    | Some h \<Rightarrow> [SetMuted h False])"
    and "sonos (volumeChange a ip v s) = Some (case sonos s of None \<Rightarrow> ip | Some h \<Rightarrow> h)"
    and "isMuted (volumeChange a ip v s) = True"
  using assms
  by (cases "sonos s"; simp add: volumeChange_def)+

lemma volumeChange_unmuted_resolved:
  assumes "sonos s = Some h"
  shows "volumeChange_unmuted a ip v (Resolved x y) s =
         suspend (AwaitSetVolume a ip v) (emit [SetVolume h v] (s\<lparr>isMuted := False\<rparr>))"
  using assms by (simp add: volumeChange_unmuted_def volumeChange_setVolume_def)

lemma isMuted_pollWithDelay [simp]: "isMuted (pollWithDelay s) = isMuted s"
  by (cases "sonos s"; cases "configured (speakerIp (spread (currentSettings s)))")
     (simp_all add: pollWithDelay_def)

lemma isMuted_startPolling [simp]: "isMuted (startPolling a s) = isMuted s"
  by (cases "pollTimeoutId s") (simp_all add: startPolling_def Let_def)

lemma volumeChange_unmuted_rejected:
  "setVolume_calls (trace (volumeChange_unmuted a ip v Rejected s)) = setVolume_calls (trace s)"
  "isMuted (volumeChange_unmuted a ip v Rejected s) = isMuted s"
  by (simp_all add: volumeChange_unmuted_def volumeChange_finally_def volumeChange_catch_def)

lemma burst_no_setVolume:
  "setVolume_calls (trace (run (burst ticks) s)) = setVolume_calls (trace s)"
proof (induction ticks arbitrary: s)
  case Nil
  show ?case by (simp add: burst_def)
next
  case (Cons t ticks)
  obtain a st k where t: "t = (a, st, k)" by (cases t)
  have "setVolume_calls (trace (onDialRotate a st k s)) = setVolume_calls (trace s)"
    by (cases "configured (speakerIp st)") (simp_all add: onDialRotate_fields)
  with Cons [of "onDialRotate a st k s"] show ?case
    by (simp add: t burst_def run_Cons)
qed

lemma burst_snoc:
  "run (burst (ticks @ [(a, st, k)])) s = onDialRotate a st k (run (burst ticks) s)"
  by (simp add: burst_def run_append run_Cons)

lemma burst_reachable:
  "timers_owned (run (burst ticks) (run evs init))"
  "timers_fresh (run (burst ticks) (run evs init))"
  by (simp_all add: run_append [symmetric] reachable_owned reachable_fresh)

text \<open>The state after a rotation with a configured address, from a state that satisfies
  the two invariants: the only debounce timer is the new one, and it is the timer its
  handle finds.\<close>

lemma onDialRotate_single_timer:
  assumes own: "timers_owned s" and fresh: "timers_fresh s"
    and ip: "configured (speakerIp st) = Some ip"
  shows "filter (\<lambda>t. cb t \<noteq> PollWake) (timers (onDialRotate a st k s)) =
           [\<lparr>tid = nextTimer s, delay = 500, cb = VolumeChange a ip (newValueOf st k s)\<rparr>]"
    and "find (\<lambda>t. tid t = nextTimer s) (timers (onDialRotate a st k s)) =
           Some \<lparr>tid = nextTimer s, delay = 500, cb = VolumeChange a ip (newValueOf st k s)\<rparr>"
proof -
  let ?old = "case volumeChangeTimeout s of
                Some t \<Rightarrow> filter (\<lambda>x. tid x \<noteq> t) (timers s) | None \<Rightarrow> timers s"
  let ?new = "\<lparr>tid = nextTimer s, delay = 500, cb = VolumeChange a ip (newValueOf st k s)\<rparr>"
  have tm: "timers (onDialRotate a st k s) = ?old @ [?new]"
    using ip by (simp add: onDialRotate_fields)
  have sub: "set ?old \<subseteq> set (timers s)"
    by (cases "volumeChangeTimeout s") auto
  have poll: "\<forall>t\<in>set ?old. cb t = PollWake"
  proof
    fix t assume t: "t \<in> set ?old"
    show "cb t = PollWake"
    proof (rule ccontr)
      assume "cb t \<noteq> PollWake"
      moreover from t sub have "t \<in> set (timers s)" by blast
      ultimately have "volumeChangeTimeout s = Some (tid t)"
        using own unfolding timers_owned_iff by blast
      with t show False by simp
    qed
  qed
  then have "filter (\<lambda>t. cb t \<noteq> PollWake) ?old = []"
    by (simp add: filter_empty_conv)
  then show "filter (\<lambda>t. cb t \<noteq> PollWake) (timers (onDialRotate a st k s)) = [?new]"
    unfolding tm by simp
  have "\<forall>t\<in>set ?old. tid t \<noteq> nextTimer s"
    using fresh sub unfolding timers_fresh_iff by fastforce
  then have "find (\<lambda>t. tid t = nextTimer s) ?old = None"
    by (simp add: find_None_iff)
  then show "find (\<lambda>t. tid t = nextTimer s) (timers (onDialRotate a st k s)) = Some ?new"
    unfolding tm by (simp add: find_app)
qed

text \<open>The debounced callback, from the firing of its timer to the end of the handler.\<close>

lemma fired_not_muted:
  assumes "\<not> isMuted x"
  shows "setVolume_calls (trace (run [Settles (length (awaiting x)) r] (volumeChange a ip v x))) =
         setVolume_calls (trace x) @ [v]"
proof -
  let ?y = "volumeChange a ip v x"
  have aw: "awaiting ?y = awaiting x @ [AwaitSetVolume a ip v]"
    using assms by (rule volumeChange_not_muted)
  have "run [Settles (length (awaiting x)) r] ?y =
        volumeChange_written a r (?y\<lparr>awaiting := awaiting x\<rparr>)"
    by (simp only: run_Cons run_Nil step_Settles_last [OF aw]) (simp add: resume_def)
  then show ?thesis
    using volumeChange_not_muted(2) [OF assms, of a ip v] by simp
qed

lemma fired_muted_resolved:
  assumes "isMuted x"
  shows "setVolume_calls (trace (run [Settles (length (awaiting x)) (Resolved p q),
                                       Settles (length (awaiting x)) r]
                                  (volumeChange a ip v x))) =
         setVolume_calls (trace x) @ [v]"
proof -
  let ?n = "length (awaiting x)"
  let ?y = "volumeChange a ip v x"
  let ?h = "case sonos x of None \<Rightarrow> ip | Some h \<Rightarrow> h"
  let ?y' = "?y\<lparr>awaiting := awaiting x\<rparr>"
  let ?z = "suspend (AwaitSetVolume a ip v) (emit [SetVolume ?h v] (?y'\<lparr>isMuted := False\<rparr>))"
  have aw: "awaiting ?y = awaiting x @ [AwaitUnmute a ip v]"
    using assms by (rule volumeChange_muted)
  have h: "sonos ?y' = Some ?h"
    using volumeChange_muted(3) [OF assms, of a ip v] by simp
  have calls: "setVolume_calls (trace ?y) = setVolume_calls (trace x)"
    using volumeChange_muted(2) [OF assms, of a ip v] by (cases "sonos x") simp_all
  have s1: "step (Settles ?n (Resolved p q)) ?y = ?z"
    by (simp only: step_Settles_last [OF aw])
       (simp add: resume_def volumeChange_unmuted_resolved [OF h])
  have awz: "awaiting ?z = awaiting x @ [AwaitSetVolume a ip v]" by simp
  have s2: "step (Settles ?n r) ?z = volumeChange_written a r (?z\<lparr>awaiting := awaiting x\<rparr>)"
    by (simp only: step_Settles_last [OF awz]) (simp add: resume_def)
  have "run [Settles ?n (Resolved p q), Settles ?n r] ?y =
        volumeChange_written a r (?z\<lparr>awaiting := awaiting x\<rparr>)"
    by (simp only: run_Cons run_Nil s1 s2)
  then show ?thesis using calls by simp
qed

lemma fired_muted_rejected:
  assumes "isMuted x"
  shows "setVolume_calls (trace (run [Settles (length (awaiting x)) Rejected]
                                  (volumeChange a ip v x))) =
         setVolume_calls (trace x)"
    and "isMuted (run [Settles (length (awaiting x)) Rejected] (volumeChange a ip v x)) = True"
proof -
  let ?y = "volumeChange a ip v x"
  have aw: "awaiting ?y = awaiting x @ [AwaitUnmute a ip v]"
    using assms by (rule volumeChange_muted)
  have calls: "setVolume_calls (trace ?y) = setVolume_calls (trace x)"
    using volumeChange_muted(2) [OF assms, of a ip v] by (cases "sonos x") simp_all
  have eq: "run [Settles (length (awaiting x)) Rejected] ?y =
        volumeChange_unmuted a ip v Rejected (?y\<lparr>awaiting := awaiting x\<rparr>)"
    by (simp only: run_Cons run_Nil step_Settles_last [OF aw]) (simp add: resume_def)
  show "setVolume_calls (trace (run [Settles (length (awaiting x)) Rejected] ?y)) =
        setVolume_calls (trace x)"
    unfolding eq using calls by (simp add: volumeChange_unmuted_rejected)
  show "isMuted (run [Settles (length (awaiting x)) Rejected] ?y) = True"
    unfolding eq using volumeChange_muted(4) [OF assms, of a ip v]
    by (simp add: volumeChange_unmuted_rejected)
qed

lemma spun_fields:
  "nextTimer spun = 4" "awaiting spun = []" "isMuted spun = False" "lastKnownVolume spun = 65"
  "setVolume_calls (trace spun) = []"
  by (simp_all add: spun_def threeTicks_def burst_def run_def connected_eq onDialRotate_fields
        newValueOf_def previousValue_def stepOf_def configured_def livingRoom_def)

lemma mutedSpeaker_eq:
  "mutedSpeaker =
     \<lparr>sonos = Some ''192.168.1.10'', lastKnownVolume = 30, isMuted = True,
      pollInterval = Some True, pollTimeoutId = None,
      currentAction = Some theDial, currentSettings = Some livingRoom,
      volumeChangeTimeout = None, isRotating = False,
      timers = [], nextTimer = 0, awaiting = [AwaitPollRead],
      trace =
        [SetFeedback theDial 50 Full,
         Log Info ''WillAppear'' ''Connecting to Sonos speaker:'',
         NewSonos ''192.168.1.10'', GetVolume ''192.168.1.10'', GetMuted ''192.168.1.10'',
         SetFeedback theDial 30 Half,
         SetSettings theDial
           \<lparr>svalue = Some 30, speakerIp = Some ''192.168.1.10'', volumeStep = Some 5\<rparr>,
         Log Debug ''Polling'' ''Starting polling'',
         GetVolume ''192.168.1.10'', GetMuted ''192.168.1.10'']\<rparr>"
  by (simp add: mutedSpeaker_def eval_defs)

lemma mutedTurned_fields:
  "nextTimer mutedTurned = 1" "awaiting mutedTurned = [AwaitPollRead]"
  "isMuted mutedTurned = True" "lastKnownVolume mutedTurned = 65"
  "sonos mutedTurned = Some ''192.168.1.10''"
  "trace mutedTurned = trace mutedSpeaker @
     [SetFeedback theDial 65 Half,
      SetSettings theDial
        \<lparr>svalue = Some 65, speakerIp = Some ''192.168.1.10'', volumeStep = Some 5\<rparr>]"
  by (simp_all add: mutedTurned_def run_def mutedSpeaker_eq onDialRotate_fields
        newValueOf_def previousValue_def stepOf_def configured_def livingRoom_def opacity_of_def)

text \<open>A burst suspends no handler.\<close>

lemma burst_awaiting:
  "awaiting (run (burst ticks) s) = awaiting s"
proof (induction ticks arbitrary: s)
  case Nil
  show ?case by (simp add: burst_def)
next
  case (Cons t ticks)
  obtain a st k where t: "t = (a, st, k)" by (cases t)
  from Cons [of "onDialRotate a st k s"] show ?case
    by (simp add: t burst_def run_Cons onDialRotate_fields)
qed

text \<open>A rotation without an address leaves no debounce timer.\<close>

lemma onDialRotate_no_timer:
  assumes own: "timers_owned s" and ip: "configured (speakerIp st) = None"
  shows "filter (\<lambda>t. cb t \<noteq> PollWake) (timers (onDialRotate a st k s)) = []"
proof -
  let ?old = "case volumeChangeTimeout s of
                Some t \<Rightarrow> filter (\<lambda>x. tid x \<noteq> t) (timers s) | None \<Rightarrow> timers s"
  have tm: "timers (onDialRotate a st k s) = ?old"
    using ip by (simp add: onDialRotate_fields)
  have sub: "set ?old \<subseteq> set (timers s)"
    by (cases "volumeChangeTimeout s") auto
  have "\<forall>t\<in>set ?old. cb t = PollWake"
  proof
    fix t assume t: "t \<in> set ?old"
    show "cb t = PollWake"
    proof (rule ccontr)
      assume "cb t \<noteq> PollWake"
      moreover from t sub have "t \<in> set (timers s)" by blast
      ultimately have "volumeChangeTimeout s = Some (tid t)"
        using own unfolding timers_owned_iff by blast
      with t show False by simp
    qed
  qed
  then show ?thesis unfolding tm by (simp add: filter_empty_conv)
qed

text \<open>While no debounce timer is set, a timer that fires is a poll wake: it sets no
  debounce timer and issues no \<^verbatim>\<open>setVolume\<close>.\<close>

lemma pollWithDelay_no_debounce:
  assumes "filter (\<lambda>t. cb t \<noteq> PollWake) (timers s) = []"
  shows "filter (\<lambda>t. cb t \<noteq> PollWake) (timers (pollWithDelay s)) = []"
  using assms
  by (cases "sonos s"; cases "configured (speakerIp (spread (currentSettings s)))";
      cases "pollTimeoutId s")
     (simp_all add: pollWithDelay_def filter_empty_conv)

lemma poll_wake_only:
  assumes none: "filter (\<lambda>t. cb t \<noteq> PollWake) (timers s) = []"
  shows "filter (\<lambda>t. cb t \<noteq> PollWake) (timers (step (TimerFires j) s)) = []"
    and "setVolume_calls (trace (step (TimerFires j) s)) = setVolume_calls (trace s)"
proof -
  let ?x = "(clearTimeout j s)\<lparr>pollTimeoutId := None\<rparr>"
  have x: "filter (\<lambda>t. cb t \<noteq> PollWake) (timers ?x) = []"
    using none by (simp add: filter_empty_conv)
  have st: "step (TimerFires j) s = s \<or> step (TimerFires j) s = ?x
            \<or> step (TimerFires j) s = pollWithDelay ?x"
  proof (cases "find (\<lambda>t. tid t = j) (timers s)")
    case None
    then show ?thesis by simp
  next
    case (Some t)
    then have "t \<in> set (timers s)" by (auto simp: find_Some_iff)
    with none have "cb t = PollWake" by (simp add: filter_empty_conv)
    with Some show ?thesis by (simp add: fire_def Let_def)
  qed
  show "filter (\<lambda>t. cb t \<noteq> PollWake) (timers (step (TimerFires j) s)) = []"
    using st none x pollWithDelay_no_debounce [OF x] by (elim disjE) simp_all
  show "setVolume_calls (trace (step (TimerFires j) s)) = setVolume_calls (trace s)"
    using st by (elim disjE) simp_all
qed

lemma poll_wakes_only:
  assumes "filter (\<lambda>t. cb t \<noteq> PollWake) (timers s) = []"
  shows "setVolume_calls (trace (run (map TimerFires ids) s)) = setVolume_calls (trace s)"
  using assms
proof (induction ids arbitrary: s)
  case Nil
  show ?case by simp
next
  case (Cons j ids)
  from Cons.IH [OF poll_wake_only(1) [OF Cons.prems]] poll_wake_only(2) [OF Cons.prems]
  show ?case by (simp add: run_Cons)
qed

text \<open>The debounced callback and its continuations, in whatever state they run.\<close>

lemma volumeChange_calls:
  "setVolume_calls (trace (volumeChange a ip v s)) =
   setVolume_calls (trace s) @ (if isMuted s then [] else [v])"
  by (cases "sonos s"; cases "isMuted s")
     (simp_all add: volumeChange_def volumeChange_setVolume_def)

lemma volumeChange_timers:
  "timers (volumeChange a ip v s) = timers s"
  by (cases "sonos s"; cases "isMuted s")
     (simp_all add: volumeChange_def volumeChange_setVolume_def)

lemma fires_volumeChange:
  assumes "find (\<lambda>t. tid t = i) (timers z) = Some \<lparr>tid = i, delay = d, cb = VolumeChange a ip v\<rparr>"
  shows "setVolume_calls (trace (step (TimerFires i) z)) =
         setVolume_calls (trace z) @ (if isMuted z then [] else [v])"
    and "awaiting (step (TimerFires i) z) =
         awaiting z @ [if isMuted z then AwaitUnmute a ip v else AwaitSetVolume a ip v]"
proof -
  let ?x = "clearTimeout i z"
  have st: "step (TimerFires i) z = volumeChange a ip v ?x"
    using assms by (simp add: fire_def)
  show "setVolume_calls (trace (step (TimerFires i) z)) =
         setVolume_calls (trace z) @ (if isMuted z then [] else [v])"
    unfolding st by (simp add: volumeChange_calls)
  show "awaiting (step (TimerFires i) z) =
         awaiting z @ [if isMuted z then AwaitUnmute a ip v else AwaitSetVolume a ip v]"
  proof (cases "isMuted z")
    case True
    then have m: "isMuted ?x" by simp
    show ?thesis unfolding st using True volumeChange_muted(1) [OF m, of a ip v] by simp
  next
    case False
    then have m: "\<not> isMuted ?x" by simp
    show ?thesis unfolding st using False volumeChange_not_muted(1) [OF m, of a ip v] by simp
  qed
qed

lemma fires_muted:
  assumes "find (\<lambda>t. tid t = i) (timers z) = Some \<lparr>tid = i, delay = d, cb = VolumeChange a ip v\<rparr>"
    and "isMuted z"
  shows "calls (trace (step (TimerFires i) z)) =
         calls (trace z) @ (case sonos z of None \<Rightarrow> [NewSonos ip, SetMuted ip False]
                                          | Some h \<Rightarrow> [SetMuted h False])"
    and "isMuted (step (TimerFires i) z)"
    and "awaiting (step (TimerFires i) z) = awaiting z @ [AwaitUnmute a ip v]"
proof -
  let ?x = "clearTimeout i z"
  have st: "step (TimerFires i) z = volumeChange a ip v ?x"
    using assms by (simp add: fire_def)
  have m: "isMuted ?x" using assms by simp
  show "calls (trace (step (TimerFires i) z)) =
         calls (trace z) @ (case sonos z of None \<Rightarrow> [NewSonos ip, SetMuted ip False]
                                          | Some h \<Rightarrow> [SetMuted h False])"
    unfolding st using volumeChange_muted(2) [OF m, of a ip v] by (cases "sonos z") simp_all
  show "isMuted (step (TimerFires i) z)"
    unfolding st using volumeChange_muted(4) [OF m, of a ip v] by simp
  show "awaiting (step (TimerFires i) z) = awaiting z @ [AwaitUnmute a ip v]"
    unfolding st using volumeChange_muted(1) [OF m, of a ip v] by simp
qed

lemma volumeChange_unmuted_calls:
  "setVolume_calls (trace (volumeChange_unmuted a ip v (Resolved x y) s)) =
   setVolume_calls (trace s) @ (if sonos s = None then [] else [v])"
  "isMuted (volumeChange_unmuted a ip v (Resolved x y) s) = False"
  by (cases "sonos s";
      simp add: volumeChange_unmuted_def volumeChange_setVolume_def volumeChange_finally_def
                volumeChange_catch_def)+

lemma settles_unmute:
  assumes "j < length (awaiting z)" and "awaiting z ! j = AwaitUnmute a ip v"
  shows "setVolume_calls (trace (step (Settles j (Resolved x y)) z)) =
         setVolume_calls (trace z) @ (if sonos z = None then [] else [v])"
    and "isMuted (step (Settles j (Resolved x y)) z) = False"
    and "sonos z = Some h \<Longrightarrow>
         trace (step (Settles j (Resolved x y)) z) = trace z @ [SetVolume h v]"
    and "sonos z = Some h \<Longrightarrow>
         awaiting (step (Settles j (Resolved x y)) z) =
         take j (awaiting z) @ drop (Suc j) (awaiting z) @ [AwaitSetVolume a ip v]"
    and "setVolume_calls (trace (step (Settles j Rejected) z)) = setVolume_calls (trace z)"
    and "isMuted (step (Settles j Rejected) z) = isMuted z"
  using assms
  by (simp_all add: resume_def volumeChange_unmuted_calls volumeChange_unmuted_rejected
        volumeChange_unmuted_resolved)

lemma settles_setVolume:
  assumes "j < length (awaiting z)" and "awaiting z ! j = AwaitSetVolume a ip v"
  shows "setVolume_calls (trace (step (Settles j r) z)) = setVolume_calls (trace z)"
  using assms by (simp add: resume_def)

lemma interrupted_fields:
  "awaiting interrupted = [AwaitUnmute theDial ''192.168.1.10'' 65]"
  "sonos interrupted = None" "isMuted interrupted = True"
  "setVolume_calls (trace interrupted) = []"
  by (simp_all add: interrupted_def mutedTurned_def mutedSpeaker_eq eval_defs)

lemma unmuting_fields:
  "awaiting unmuting = [AwaitPollRead, AwaitUnmute theDial ''192.168.1.10'' 65]"
  "sonos unmuting = Some ''192.168.1.10''" "isMuted unmuting = True"
  "setVolume_calls (trace unmuting) = []"
  by (simp_all add: unmuting_def mutedTurned_def mutedSpeaker_eq eval_defs)

lemma localOnly_fields:
  "isMuted localOnly = True" "setVolume_calls (trace localOnly) = []"
  "awaiting localOnly = []" "timers localOnly = []" "lastKnownVolume localOnly = 50"
  by (simp_all add: localOnly_def eval_defs)

section \<open>The claims\<close>

subsection \<open>Rotation clamps the volume\<close>

text \<open>
  Claim C4. After every rotation event, for any integer tick count and any step, the
  cached volume \<^verbatim>\<open>lastKnownVolume\<close> is
  \<open>max 0 (min 100 (previousValue + ticks * volumeStep))\<close>, so it lies in \<open>[0, 100]\<close>
  whatever the magnitude of the input. Here \<open>previousValue\<close> is the \<^verbatim>\<open>value\<close> of the
  handler's destructuring: the value carried by the event's settings, and the cached
  volume when they carry none; \<open>volumeStep\<close> defaults to 5.
\<close>

theorem onDialRotate_clamps:
  "lastKnownVolume (onDialRotate a st ticks s) =
     max 0 (min 100 (previousValue st s + ticks * stepOf st))
   \<and> 0 \<le> lastKnownVolume (onDialRotate a st ticks s)
   \<and> lastKnownVolume (onDialRotate a st ticks s) \<le> 100"
  by (simp add: onDialRotate_fields newValueOf_def)

theorem onDialRotate_clamps_witness:
  "lastKnownVolume (onDialRotate theDial livingRoom 1000 connected) = 100
   \<and> lastKnownVolume (onDialRotate theDial livingRoom (- 1000) connected) = 0
   \<and> lastKnownVolume (onDialRotate theDial livingRoom 3 connected) = 65"
  using onDialRotate_clamps [of theDial livingRoom 1000 connected]
        onDialRotate_clamps [of theDial livingRoom "- 1000" connected]
        onDialRotate_clamps [of theDial livingRoom 3 connected]
  by (simp add: previousValue_def stepOf_def livingRoom_def)

subsection \<open>The registered control ignores rotation while muted\<close>

text \<open>
  Claim C10. In \<^verbatim>\<open>SonosVolumeControl\<close>, the action that \<^verbatim>\<open>src/plugin.ts\<close> registers,
  a rotation event whose settings have the mute flag set is a no-op: the settings, and
  so \<^verbatim>\<open>currentVolume\<close>, are unchanged, and neither \<^verbatim>\<open>setSettings\<close> nor
  \<^verbatim>\<open>setFeedback\<close> is called.
\<close>

theorem control_onDialRotate_muted_noop:
  "sc_isMuted st = Some True \<Longrightarrow> control_onDialRotate a st ticks = (st, [])"
  by (simp add: control_onDialRotate_def)

theorem control_onDialRotate_muted_noop_witness:
  "sc_isMuted \<lparr>sc_speakerIp = Some '''', sc_volumeStep = Some 2, currentVolume = Some 50,
               sc_isMuted = Some True\<rparr> = Some True
   \<and> control_onDialRotate theDial
        \<lparr>sc_speakerIp = Some '''', sc_volumeStep = Some 2, currentVolume = Some 50,
          sc_isMuted = Some True\<rparr> 3
      = (\<lparr>sc_speakerIp = Some '''', sc_volumeStep = Some 2, currentVolume = Some 50,
           sc_isMuted = Some True\<rparr>, [])"
  using control_onDialRotate_muted_noop
          [of "\<lparr>sc_speakerIp = Some '''', sc_volumeStep = Some 2, currentVolume = Some 50,
                sc_isMuted = Some True\<rparr>" theDial 3]
  by simp

subsection \<open>A changed speaker address\<close>

text \<open>
  Claim C3 (the code departs from it). \<^verbatim>\<open>onDidReceiveSettings\<close> assigns
  \<^verbatim>\<open>this.currentSettings = ev.payload.settings\<close> before it compares the new address
  with \<^verbatim>\<open>this.currentSettings?.speakerIp\<close>, so the comparison is between the new
  address and itself and the reconnecting branch is never taken. At the input below the
  dial is connected to 192.168.1.10 and polling, and the settings event carries
  192.168.1.20: the handler only stores the settings; the handle for 192.168.1.10 stays,
  the poller keeps running and nothing is sent to the host or to either device.
\<close>

theorem address_change_is_ignored:
  "speakerIp (spread (currentSettings connected)) = Some ''192.168.1.10''
   \<and> speakerIp kitchen = Some ''192.168.1.20''
   \<and> onDidReceiveSettings theDial kitchen connected = connected\<lparr>currentSettings := Some kitchen\<rparr>
   \<and> sonos (onDidReceiveSettings theDial kitchen connected) = Some ''192.168.1.10''
   \<and> pollInterval (onDidReceiveSettings theDial kitchen connected) = Some True
   \<and> trace (onDidReceiveSettings theDial kitchen connected) = trace connected"
  by (simp add: onDidReceiveSettings_eq connected_eq spread_def theDial_def kitchen_def livingRoom_def)

subsection \<open>A poll that completes during a rotation\<close>

text \<open>
  Claim C2. When a poll cycle completes while \<^verbatim>\<open>isRotating\<close> is true, the cached volume
  and the cached mute state are left as they are and nothing is pushed to the host (the
  trace gains no call), whatever the read returned; the poller is not stopped, and the
  \<^verbatim>\<open>finally\<close> block reschedules the next wake as it always does: when polling is still
  active, the previous poll timer is cleared and a wake is set
  \<^verbatim>\<open>POLLING_INTERVAL_MS\<close> later; when \<^verbatim>\<open>stopPolling\<close> ran meanwhile, no timer is set.
\<close>

theorem poll_discarded_while_rotating:
  "isRotating s \<Longrightarrow>
     lastKnownVolume (pollWithDelay_settled r s) = lastKnownVolume s
   \<and> isMuted (pollWithDelay_settled r s) = isMuted s
   \<and> calls (trace (pollWithDelay_settled r s)) = calls (trace s)
   \<and> pollInterval (pollWithDelay_settled r s) = pollInterval s
   \<and> (if pollInterval s = Some True
      then pollTimeoutId (pollWithDelay_settled r s) = Some (nextTimer s)
         \<and> timers (pollWithDelay_settled r s) =
             (case pollTimeoutId s of
                Some t \<Rightarrow> filter (\<lambda>x. tid x \<noteq> t) (timers s) | None \<Rightarrow> timers s) @
             [\<lparr>tid = nextTimer s, delay = POLLING_INTERVAL_MS, cb = PollWake\<rparr>]
      else timers (pollWithDelay_settled r s) = timers s)"
  by (cases r) (simp_all add: pollWithDelay_settled_def POLLING_INTERVAL_MS_def split: option.split)

theorem poll_discarded_while_rotating_witness:
  "isRotating rotating
   \<and> lastKnownVolume (run [Settles 0 (Resolved 80 True)] rotating) = 65
   \<and> isMuted (run [Settles 0 (Resolved 80 True)] rotating) = False
   \<and> calls (trace (run [Settles 0 (Resolved 80 True)] rotating)) = calls (trace rotating)
   \<and> timers (run [Settles 0 (Resolved 80 True)] rotating) =
       [\<lparr>tid = 1, delay = 500, cb = VolumeChange theDial ''192.168.1.10'' 65\<rparr>,
        \<lparr>tid = 2, delay = 3000, cb = PollWake\<rparr>]"
proof -
  have run: "run [Settles 0 (Resolved 80 True)] rotating =
             pollWithDelay_settled (Resolved 80 True) (rotating\<lparr>awaiting := []\<rparr>)"
    by (simp add: run_def rotating_eq resume_def)
  have rot: "isRotating (rotating\<lparr>awaiting := []\<rparr>)"
    by (simp add: rotating_eq)
  have fields:
    "lastKnownVolume (rotating\<lparr>awaiting := []\<rparr>) = 65"
    "isMuted (rotating\<lparr>awaiting := []\<rparr>) = False"
    "pollInterval (rotating\<lparr>awaiting := []\<rparr>) = Some True"
    "pollTimeoutId (rotating\<lparr>awaiting := []\<rparr>) = None"
    "nextTimer (rotating\<lparr>awaiting := []\<rparr>) = 2"
    "trace (rotating\<lparr>awaiting := []\<rparr>) = trace rotating"
    "timers (rotating\<lparr>awaiting := []\<rparr>) =
       [\<lparr>tid = 1, delay = 500, cb = VolumeChange theDial ''192.168.1.10'' 65\<rparr>]"
    by (simp_all add: rotating_eq)
  show ?thesis
    using poll_discarded_while_rotating [OF rot, of "Resolved 80 True"] rot
    by (simp add: run fields POLLING_INTERVAL_MS_def)
qed

subsection \<open>A poll whose read fails\<close>

text \<open>
  Claim C6. When the read of a poll cycle is rejected, the handle is set to \<^verbatim>\<open>null\<close>,
  the only thing emitted is an entry of the log (no alert is shown), the poller is not
  stopped and its bound action and settings are kept, and the \<^verbatim>\<open>finally\<close> block sets
  the next wake \<^verbatim>\<open>POLLING_INTERVAL_MS\<close> later unless \<^verbatim>\<open>stopPolling\<close> ran meanwhile.
  The failure does not end polling: when that wake fires, with an address configured, the
  poller constructs a new handle for the address and reads again.
\<close>

theorem poll_failure_keeps_polling:
  "sonos (pollWithDelay_settled Rejected s) = None
   \<and> trace (pollWithDelay_settled Rejected s) =
       trace s @ [Log Error ''Polling'' ''Failed to poll speaker state:'']
   \<and> pollInterval (pollWithDelay_settled Rejected s) = pollInterval s
   \<and> currentAction (pollWithDelay_settled Rejected s) = currentAction s
   \<and> currentSettings (pollWithDelay_settled Rejected s) = currentSettings s
   \<and> (if pollInterval s = Some True
      then pollTimeoutId (pollWithDelay_settled Rejected s) = Some (nextTimer s)
         \<and> timers (pollWithDelay_settled Rejected s) =
             (case pollTimeoutId s of
                Some t \<Rightarrow> filter (\<lambda>x. tid x \<noteq> t) (timers s) | None \<Rightarrow> timers s) @
             [\<lparr>tid = nextTimer s, delay = POLLING_INTERVAL_MS, cb = PollWake\<rparr>]
      else timers (pollWithDelay_settled Rejected s) = timers s)
   \<and> (pollInterval s = Some True \<and> currentAction s = Some a \<and> currentSettings s = Some st
        \<and> configured (speakerIp st) = Some ip \<longrightarrow>
      sonos (fire PollWake (clearTimeout (nextTimer s) (pollWithDelay_settled Rejected s))) = Some ip
      \<and> trace (fire PollWake (clearTimeout (nextTimer s) (pollWithDelay_settled Rejected s))) =
          trace s @ [Log Error ''Polling'' ''Failed to poll speaker state:'',
                     Log Info ''Polling'' ''Reconnecting to speaker:'',
                     NewSonos ip, GetVolume ip, GetMuted ip])"
  by (simp add: pollWithDelay_settled_def POLLING_INTERVAL_MS_def fire_def Let_def
        pollWithDelay_def spread_def split: option.split)

theorem poll_failure_keeps_polling_witness:
  "sonos (run [Settles 0 Rejected] rotating) = None
   \<and> calls (trace (run [Settles 0 Rejected] rotating)) = calls (trace rotating)
   \<and> pollInterval (run [Settles 0 Rejected] rotating) = Some True
   \<and> timers (run [Settles 0 Rejected] rotating) =
       [\<lparr>tid = 1, delay = 500, cb = VolumeChange theDial ''192.168.1.10'' 65\<rparr>,
        \<lparr>tid = 2, delay = 3000, cb = PollWake\<rparr>]
   \<and> sonos (run [Settles 0 Rejected, TimerFires 2] rotating) = Some ''192.168.1.10''
   \<and> calls (trace (run [Settles 0 Rejected, TimerFires 2] rotating)) =
       calls (trace rotating) @
       [NewSonos ''192.168.1.10'', GetVolume ''192.168.1.10'', GetMuted ''192.168.1.10'']"
proof -
  let ?s = "rotating\<lparr>awaiting := []\<rparr>"
  have fields:
    "pollInterval ?s = Some True"
    "pollTimeoutId ?s = None"
    "currentAction ?s = Some theDial"
    "currentSettings ?s = Some livingRoom"
    "nextTimer ?s = 2"
    "trace ?s = trace rotating"
    "timers ?s = [\<lparr>tid = 1, delay = 500, cb = VolumeChange theDial ''192.168.1.10'' 65\<rparr>]"
    by (simp_all add: rotating_eq)
  have ip: "configured (speakerIp livingRoom) = Some ''192.168.1.10''"
    by (simp add: configured_def livingRoom_def)
  note inst = poll_failure_keeps_polling [of ?s theDial livingRoom "''192.168.1.10''"]
  have run1: "run [Settles 0 Rejected] rotating = pollWithDelay_settled Rejected ?s"
    by (simp add: run_def rotating_eq resume_def)
  have tm: "timers (pollWithDelay_settled Rejected ?s) =
       [\<lparr>tid = 1, delay = 500, cb = VolumeChange theDial ''192.168.1.10'' 65\<rparr>,
        \<lparr>tid = 2, delay = 3000, cb = PollWake\<rparr>]"
    using inst by (simp add: fields ip POLLING_INTERVAL_MS_def)
  have run2: "run [Settles 0 Rejected, TimerFires 2] rotating =
              fire PollWake (clearTimeout 2 (pollWithDelay_settled Rejected ?s))"
    using run1 by (simp add: run_def tm)
  show ?thesis
    using inst by (simp add: run1 run2 fields ip POLLING_INTERVAL_MS_def)
qed

subsection \<open>Dial press and touch tap\<close>

text \<open>
  Claim C9. \<^verbatim>\<open>onDialUp\<close> and \<^verbatim>\<open>onTouchTap\<close> behave alike: from every state and for
  every action and settings of the event, the two handlers leave the same fields and
  timers and make the same calls on the host and on the device in the same order (the
  alerts among them); they differ in the scope and text of their log entries only. The
  same holds for their continuations after the awaited \<^verbatim>\<open>setMuted\<close>, whether it
  resolved or was rejected.
\<close>

theorem press_and_tap_agree:
  "observe (onDialUp a st s) = observe (onTouchTap a st s)
   \<and> observe (resume (AwaitDialUp a) r s) = observe (resume (AwaitTouchTap a) r s)"
proof
  show "observe (onDialUp a st s) = observe (onTouchTap a st s)"
    by (cases "configured (speakerIp st)")
       (simp_all add: onDialUp_def onTouchTap_def Let_def same_then observe_push)
  show "observe (resume (AwaitDialUp a) r s) = observe (resume (AwaitTouchTap a) r s)"
    by (cases r) (simp_all add: resume_def onDialUp_settled_def onTouchTap_settled_def same_catch)
qed

theorem press_and_tap_agree_witness:
  "isMuted (onTouchTap theDial livingRoom connected) = True
   \<and> sonos (onTouchTap theDial livingRoom connected) = Some ''192.168.1.10''
   \<and> calls (trace (onTouchTap theDial livingRoom connected)) =
       calls (trace connected) @
       [SetFeedback theDial 30 Half, SetMuted ''192.168.1.10'' True]
   \<and> calls (trace (onDialUp theDial livingRoom connected)) =
       calls (trace connected) @
       [SetFeedback theDial 30 Half, SetMuted ''192.168.1.10'' True]"
proof -
  have press:
    "isMuted (onDialUp theDial livingRoom connected) = True"
    "sonos (onDialUp theDial livingRoom connected) = Some ''192.168.1.10''"
    "calls (trace (onDialUp theDial livingRoom connected)) =
       calls (trace connected) @
       [SetFeedback theDial 30 Half, SetMuted ''192.168.1.10'' True]"
    by (simp_all add: connected_eq onDialUp_def onDialUp_then_def Let_def configured_def
          livingRoom_def opacity_of_def)
  have same: "observe (onDialUp theDial livingRoom connected) =
              observe (onTouchTap theDial livingRoom connected)"
    using press_and_tap_agree [of theDial livingRoom connected Rejected] by simp
  have "isMuted (observe (onTouchTap theDial livingRoom connected)) = True"
    "sonos (observe (onTouchTap theDial livingRoom connected)) = Some ''192.168.1.10''"
    "trace (observe (onTouchTap theDial livingRoom connected)) =
       calls (trace connected) @
       [SetFeedback theDial 30 Half, SetMuted ''192.168.1.10'' True]"
    unfolding same [symmetric] by (simp_all add: observe_def press)
  then show ?thesis by (simp add: observe_def press)
qed

subsection \<open>A failed call invalidates the handle\<close>

text \<open>
  Claim C5. After a rejected device call the handle is set to \<^verbatim>\<open>null\<close>, on the poll
  path, on the mute toggle (press or tap), on the first read of \<^verbatim>\<open>onWillAppear\<close> and on
  the debounced write of a rotation. The \<^verbatim>\<open>finally\<close> block of the debounced write
  calls \<^verbatim>\<open>startPolling\<close>: while the poller is active the handle is absent when the
  handler ends, and when \<^verbatim>\<open>startPolling\<close> starts a poll at once, that poll has already
  constructed a new handle (\<open>rebuilt\<close>). From a state without a handle, the next
  operation constructs a handle for the configured address before it calls the device:
  the debounced write for the address of its rotation event, the mute toggle for the
  address of its event, the poll for the address of the stored settings.
\<close>

theorem failure_invalidates_handle:
  "(sonos (pollWithDelay_settled Rejected s) = None
    \<and> sonos (onDialUp_settled a Rejected s) = None
    \<and> sonos (onTouchTap_settled a Rejected s) = None
    \<and> sonos (onWillAppear_settled a st Rejected s) = None
    \<and> rebuilt s (volumeChange_unmuted a ip v Rejected s)
    \<and> rebuilt s (volumeChange_written a Rejected s)
    \<and> (pollInterval s = Some True \<longrightarrow>
          sonos (volumeChange_unmuted a ip v Rejected s) = None
        \<and> sonos (volumeChange_written a Rejected s) = None))
   \<and> (sonos s = None \<longrightarrow>
         sonos (volumeChange a ip v s) = Some ip
       \<and> trace (volumeChange a ip v s) =
           trace s @ [Log Info ''DialRotate'' ''Reconnecting to speaker:'', NewSonos ip,
                      if isMuted s then SetMuted ip False else SetVolume ip v]
       \<and> (configured (speakerIp st) = Some ip \<longrightarrow>
             sonos (onDialUp a st s) = Some ip \<and> rebuilt s (onDialUp a st s)
           \<and> last (trace (onDialUp a st s)) = SetMuted ip (\<not> isMuted s)
           \<and> sonos (onTouchTap a st s) = Some ip \<and> rebuilt s (onTouchTap a st s)
           \<and> last (trace (onTouchTap a st s)) = SetMuted ip (\<not> isMuted s))
       \<and> (pollInterval s = Some True \<and> currentAction s = Some a
            \<and> currentSettings s = Some st \<and> configured (speakerIp st) = Some ip \<longrightarrow>
             sonos (pollWithDelay s) = Some ip
           \<and> trace (pollWithDelay s) =
               trace s @ [Log Info ''Polling'' ''Reconnecting to speaker:'', NewSonos ip,
                          GetVolume ip, GetMuted ip]))"
proof (intro conjI impI)
  show "sonos (pollWithDelay_settled Rejected s) = None"
    by (simp add: pollWithDelay_settled_def)
  show "sonos (onDialUp_settled a Rejected s) = None"
    by (simp add: onDialUp_settled_def onDialUp_catch_def)
  show "sonos (onTouchTap_settled a Rejected s) = None"
    by (simp add: onTouchTap_settled_def onTouchTap_catch_def)
  show "sonos (onWillAppear_settled a st Rejected s) = None"
    by (simp add: onWillAppear_settled_def Let_def)
  show "rebuilt s (volumeChange_unmuted a ip v Rejected s)"
    by (simp add: volumeChange_unmuted_def rebuilt_volumeChange_finally_catch)
  show "rebuilt s (volumeChange_written a Rejected s)"
    by (simp add: volumeChange_written_def rebuilt_volumeChange_finally_catch)
next
  assume "pollInterval s = Some True"
  then show "sonos (volumeChange_unmuted a ip v Rejected s) = None"
    "sonos (volumeChange_written a Rejected s) = None"
    by (simp_all add: volumeChange_unmuted_def volumeChange_written_def
          volumeChange_finally_catch_active)
next
  assume none: "sonos s = None"
  then show "sonos (volumeChange a ip v s) = Some ip"
    by (simp add: volumeChange_def volumeChange_setVolume_def Let_def)
  from none show "trace (volumeChange a ip v s) =
           trace s @ [Log Info ''DialRotate'' ''Reconnecting to speaker:'', NewSonos ip,
                      if isMuted s then SetMuted ip False else SetVolume ip v]"
    by (simp add: volumeChange_def volumeChange_setVolume_def Let_def)
  {
    assume ip: "configured (speakerIp st) = Some ip"
    from onDialUp_reconnects [OF none ip, of a]
    show "sonos (onDialUp a st s) = Some ip" "rebuilt s (onDialUp a st s)"
      "last (trace (onDialUp a st s)) = SetMuted ip (\<not> isMuted s)" by blast+
    from onTouchTap_reconnects [OF none ip, of a]
    show "sonos (onTouchTap a st s) = Some ip" "rebuilt s (onTouchTap a st s)"
      "last (trace (onTouchTap a st s)) = SetMuted ip (\<not> isMuted s)" by blast+
  }
  {
    assume "pollInterval s = Some True \<and> currentAction s = Some a
            \<and> currentSettings s = Some st \<and> configured (speakerIp st) = Some ip"
    with none show "sonos (pollWithDelay s) = Some ip"
      "trace (pollWithDelay s) =
               trace s @ [Log Info ''Polling'' ''Reconnecting to speaker:'', NewSonos ip,
                          GetVolume ip, GetMuted ip]"
      by (simp_all add: pollWithDelay_def spread_def)
  }
qed

theorem failure_invalidates_handle_witness:
  "sonos writing = Some ''192.168.1.10''
   \<and> sonos (run [Settles 1 Rejected] writing) = None
   \<and> sonos retrying = None
   \<and> sonos (run [TimerFires 2] retrying) = Some ''192.168.1.10''
   \<and> trace (run [TimerFires 2] retrying) =
       trace retrying @ [Log Info ''DialRotate'' ''Reconnecting to speaker:'',
                         NewSonos ''192.168.1.10'', SetVolume ''192.168.1.10'' 55]
   \<and> sonos failed = None
   \<and> sonos (run [DialUp theDial livingRoom] failed) = Some ''192.168.1.10''
   \<and> last (trace (run [DialUp theDial livingRoom] failed)) = SetMuted ''192.168.1.10'' True
   \<and> sonos (run [TouchTap theDial livingRoom] failed) = Some ''192.168.1.10''
   \<and> last (trace (run [TouchTap theDial livingRoom] failed)) = SetMuted ''192.168.1.10'' True
   \<and> sonos (run [Settles 0 Rejected, TimerFires 2] failed) = Some ''192.168.1.10''
   \<and> trace (run [Settles 0 Rejected, TimerFires 2] failed) =
       trace (run [Settles 0 Rejected] failed) @
       [Log Info ''Polling'' ''Reconnecting to speaker:'', NewSonos ''192.168.1.10'',
        GetVolume ''192.168.1.10'', GetMuted ''192.168.1.10'']"
proof -
  let ?ip = "''192.168.1.10''"
  let ?w = "writing\<lparr>awaiting := [AwaitPollRead]\<rparr>"
  let ?r = "clearTimeout 2 retrying"
  let ?p = "(clearTimeout 2 (run [Settles 0 Rejected] failed))\<lparr>pollTimeoutId := None\<rparr>"
  have cfg: "configured (speakerIp livingRoom) = Some ?ip"
    by (simp add: configured_def livingRoom_def)
  have w: "run [Settles 1 Rejected] writing = volumeChange_written theDial Rejected ?w"
    by (simp add: run_def writing_eq resume_def)
  have wf: "pollInterval ?w = Some True" by (simp add: writing_eq)
  have r: "run [TimerFires 2] retrying = volumeChange theDial ?ip 55 ?r"
    by (simp add: run_def retrying_eq fire_def)
  have rf: "sonos ?r = None" "isMuted ?r = False" "trace ?r = trace retrying"
    by (simp_all add: retrying_eq)
  have a: "sonos writing = Some ?ip" "sonos retrying = None" "sonos failed = None"
    "isMuted failed = False"
    by (simp_all add: writing_eq retrying_eq failed_eq)
  have k1: "sonos (volumeChange_written theDial Rejected ?w) = None"
    using failure_invalidates_handle [of ?w theDial livingRoom ?ip 65] wf
    by blast
  have "sonos (volumeChange theDial ?ip 55 ?r) = Some ?ip
    \<and> trace (volumeChange theDial ?ip 55 ?r) =
        trace ?r @ [Log Info ''DialRotate'' ''Reconnecting to speaker:'', NewSonos ?ip,
                    if isMuted ?r then SetMuted ?ip False else SetVolume ?ip 55]"
    using failure_invalidates_handle [of ?r theDial livingRoom ?ip 55] rf(1)
    by blast
  then have k2: "sonos (volumeChange theDial ?ip 55 ?r) = Some ?ip"
    "trace (volumeChange theDial ?ip 55 ?r) =
        trace retrying @ [Log Info ''DialRotate'' ''Reconnecting to speaker:'',
                    NewSonos ?ip, SetVolume ?ip 55]"
    by (simp_all only: rf if_False)
  have "sonos (onDialUp theDial livingRoom failed) = Some ?ip
      \<and> last (trace (onDialUp theDial livingRoom failed)) = SetMuted ?ip (\<not> isMuted failed)
      \<and> sonos (onTouchTap theDial livingRoom failed) = Some ?ip
      \<and> last (trace (onTouchTap theDial livingRoom failed)) = SetMuted ?ip (\<not> isMuted failed)"
    using failure_invalidates_handle [of failed theDial livingRoom ?ip 0] a(3) cfg
    by blast
  then have k3: "sonos (run [DialUp theDial livingRoom] failed) = Some ?ip"
    "last (trace (run [DialUp theDial livingRoom] failed)) = SetMuted ?ip True"
    "sonos (run [TouchTap theDial livingRoom] failed) = Some ?ip"
    "last (trace (run [TouchTap theDial livingRoom] failed)) = SetMuted ?ip True"
    by (simp_all add: run_Cons a(4))
  have pf: "sonos ?p = None" "pollInterval ?p = Some True" "currentAction ?p = Some theDial"
    "currentSettings ?p = Some livingRoom" "trace ?p = trace (run [Settles 0 Rejected] failed)"
    "find (\<lambda>t. tid t = 2) (timers (run [Settles 0 Rejected] failed)) =
       Some \<lparr>tid = 2, delay = 3000, cb = PollWake\<rparr>"
    by (simp_all add: run_def failed_eq resume_def pollWithDelay_settled_def)
  have p: "run [Settles 0 Rejected, TimerFires 2] failed = pollWithDelay ?p"
    using pf(2,6) by (simp add: run_Cons fire_def Let_def del: step.simps(8))
  have "sonos (pollWithDelay ?p) = Some ?ip
      \<and> trace (pollWithDelay ?p) =
          trace ?p @ [Log Info ''Polling'' ''Reconnecting to speaker:'', NewSonos ?ip,
                      GetVolume ?ip, GetMuted ?ip]"
    using failure_invalidates_handle [of ?p theDial livingRoom ?ip 0] pf(1-4) cfg
    by blast
  then have k4: "sonos (pollWithDelay ?p) = Some ?ip"
    "trace (pollWithDelay ?p) =
          trace (run [Settles 0 Rejected] failed) @
          [Log Info ''Polling'' ''Reconnecting to speaker:'', NewSonos ?ip,
           GetVolume ?ip, GetMuted ?ip]"
    by (simp_all only: pf(5))
  show ?thesis unfolding w r p using a k1 k2 k3 k4 by simp
qed

subsection \<open>Teardown\<close>

text \<open>
  Claim C7. After \<^verbatim>\<open>onWillDisappear\<close>, whatever happened before, no timer is set: the
  debounce timer and the poll timer are cleared and their fields are \<^verbatim>\<open>null\<close>, and the
  poller is stopped. So a debounced \<^verbatim>\<open>setVolume\<close> that was pending never fires: timer
  events delivered after the teardown find no timer and leave the state as it is, and
  the teardown itself sends no \<^verbatim>\<open>setVolume\<close>.
\<close>

theorem teardown_cancels_timers:
  "timers (run (evs @ [WillDisappear]) init) = []
   \<and> volumeChangeTimeout (run (evs @ [WillDisappear]) init) = None
   \<and> pollTimeoutId (run (evs @ [WillDisappear]) init) = None
   \<and> pollInterval (run (evs @ [WillDisappear]) init) = None
   \<and> setVolume_calls (trace (run (evs @ [WillDisappear]) init)) =
       setVolume_calls (trace (run evs init))
   \<and> run (evs @ [WillDisappear] @ map TimerFires ids) init = run (evs @ [WillDisappear]) init"
proof -
  let ?s = "run evs init"
  have eq: "run (evs @ [WillDisappear]) init = onWillDisappear ?s"
    by (simp add: run_append run_Cons)
  have none: "timers (onWillDisappear ?s) = []"
    using reachable_owned by (rule onWillDisappear_no_timers)
  have "run (evs @ [WillDisappear] @ map TimerFires ids) init =
        run (map TimerFires ids) (onWillDisappear ?s)"
    by (simp add: run_append run_Cons)
  also have "\<dots> = onWillDisappear ?s"
    using none by (rule no_timers_no_fire)
  finally show ?thesis
    unfolding eq using none by (simp add: onWillDisappear_fields)
qed

theorem teardown_cancels_timers_witness:
  "timers rotating = [\<lparr>tid = 1, delay = 500, cb = VolumeChange theDial ''192.168.1.10'' 65\<rparr>]
   \<and> volumeChangeTimeout rotating = Some 1
   \<and> timers (run [WillDisappear] rotating) = []
   \<and> setVolume_calls (trace (run [WillDisappear, TimerFires 1] rotating)) = []"
proof -
  let ?evs = "[WillAppear theDial livingRoom, Settles 0 (Resolved 30 False),
               Settles 0 (Resolved 30 False), TimerFires 0, DialRotate theDial livingRoom 3]"
  have r: "run ?evs init = rotating" by (simp add: rotating_run)
  have a: "run (?evs @ [WillDisappear]) init = run [WillDisappear] rotating"
    unfolding run_append r ..
  have b: "run (?evs @ [WillDisappear] @ map TimerFires [1]) init =
           run [WillDisappear, TimerFires 1] rotating"
    unfolding run_append r by (simp add: run_def)
  have c: "setVolume_calls (trace rotating) = []"
    by (simp add: rotating_eq connected_eq)
  from teardown_cancels_timers [of ?evs "[1]"]
  have "timers (run [WillDisappear] rotating) = []"
    "setVolume_calls (trace (run [WillDisappear] rotating)) = setVolume_calls (trace rotating)"
    "run [WillDisappear, TimerFires 1] rotating = run [WillDisappear] rotating"
    unfolding a b r by blast+
  moreover have "timers rotating =
      [\<lparr>tid = 1, delay = 500, cb = VolumeChange theDial ''192.168.1.10'' 65\<rparr>]"
    "volumeChangeTimeout rotating = Some 1"
    by (simp_all add: rotating_eq)
  ultimately show ?thesis using c by simp
qed

subsection \<open>A burst of rotation produces one write\<close>




subsection \<open>Rotation while muted\<close>




end
